theory Spec2Isabelle
  imports Main "HOL-Library.Word"
begin

section \<open>Values, exceptions and observable events\<close>

text \<open>
  A JSON value as Python's \<^verbatim>\<open>json\<close> module represents it: \<^verbatim>\<open>None\<close>, a \<^verbatim>\<open>bool\<close>, an
  unbounded \<^verbatim>\<open>int\<close>, a \<^verbatim>\<open>float\<close> (a binary64, kept as its bit pattern), a \<^verbatim>\<open>str\<close>, a
  \<^verbatim>\<open>list\<close> or a \<^verbatim>\<open>dict\<close> (its items in insertion order). \<open>JNull\<close> is Python's \<^verbatim>\<open>None\<close>,
  also where it is an attribute's default.
\<close>

datatype json =
    JNull
  | JBool bool
  | JInt int
  | JFloat "64 word"
  | JStr string
  | JArr "json list"
  | JObj "(string \<times> json) list"

text \<open>
  Python's truth value of such an object, as \<^verbatim>\<open>if args.notices:\<close> tests it: \<^verbatim>\<open>None\<close>,
  \<^verbatim>\<open>False\<close>, the numbers zero (\<^verbatim>\<open>0\<close>, \<^verbatim>\<open>0.0\<close> and \<^verbatim>\<open>-0.0\<close>: every bit but the sign
  clear) and the empty string, list and dict are false; everything else is true.
\<close>

fun truthy :: "json \<Rightarrow> bool" where
  "truthy JNull = False"
| "truthy (JBool b) = b"
| "truthy (JInt i) = (i \<noteq> 0)"
| "truthy (JFloat w) = (take_bit 63 w \<noteq> 0)"
| "truthy (JStr s) = (s \<noteq> [])"
| "truthy (JArr xs) = (xs \<noteq> [])"
| "truthy (JObj kvs) = (kvs \<noteq> [])"

text \<open>
  The exceptions that leave the functions modelled here. \<open>SystemExit 2\<close> is how argparse
  leaves on a usage error (\<^verbatim>\<open>parser.error\<close>). \<open>ApiError\<close> is any exception an
  operation of the API handle raises; the code under study catches none of them.
  \<open>AttributeError\<close> is Python's, on reading an attribute that is not there. \<open>OSError\<close>,
  \<open>UnicodeDecodeError\<close>, \<open>ValueError\<close> and \<open>RecursionError\<close> are the standard
  library's, from the calls \<^verbatim>\<open>NoticesAction\<close> makes; each carries the error's text.
\<close>

datatype exc =
    SystemExit nat
  | BinstarError string
  | ApiError string
  | AttributeError string
  | OSError string
  | UnicodeDecodeError string
  | ValueError string
  | RecursionError string

datatype level = ERROR | WARNING | INFO

text \<open>
  What an invocation does to the outside, in order: records handed to a logger, and calls
  of operations of the API handle with their arguments. The account is passed as the
  handler holds it, \<^verbatim>\<open>None\<close> included.
\<close>

datatype api_call =
    CheckServer
  | UserCall
  | CreateNotices "string option" string json
  | RemoveNotices "string option" string
  | FetchNotices "string option" string

datatype event = Log level string | ApiCall api_call

text \<open>
  The API handle (\<^verbatim>\<open>get_server_api(...)\<close>), an opaque collaborator: each operation either
  raises (\<open>Some e\<close>, \<open>Inl e\<close>) or returns. \<^verbatim>\<open>user()\<close> returns a dict of strings.
\<close>

record api =
  check_server :: "exc option"
  user_info :: "exc + (string \<rightharpoonup> string)"
  create_notices :: "string option \<Rightarrow> string \<Rightarrow> json \<Rightarrow> exc option"
  remove_notices :: "string option \<Rightarrow> string \<Rightarrow> exc option"
  fetch_notices :: "string option \<Rightarrow> string \<Rightarrow> exc + json"

text \<open>
  The argparse namespace of the notices command: the attributes \<^verbatim>\<open>add_parser\<close> declares
  (\<^verbatim>\<open>label\<close>, \<^verbatim>\<open>user\<close>, \<^verbatim>\<open>notices\<close>, \<^verbatim>\<open>remove\<close>, \<^verbatim>\<open>get\<close>), the global options
  \<^verbatim>\<open>token\<close> and \<^verbatim>\<open>site\<close> that \<^verbatim>\<open>api_user\<close> reads, and \<^verbatim>\<open>api\<close>, which \<^verbatim>\<open>api_user\<close>
  attaches (\<open>None\<close>: the attribute is not there yet).
\<close>

record namespace =
  label :: string
  user :: "string option"
  notices :: json
  remove :: bool
  get :: bool
  token :: "string option"
  site :: "string option"
  api :: "api option"

text \<open>
  What an existing path names when \<^verbatim>\<open>NoticesAction\<close> opens and reads it: a file whose
  text is returned; something \<^verbatim>\<open>open\<close> or \<^verbatim>\<open>read\<close> fails on with an \<^verbatim>\<open>OSError\<close> (a
  directory, a file without read permission); or a file whose bytes are not text in the
  default encoding, on which \<^verbatim>\<open>read\<close> raises \<^verbatim>\<open>UnicodeDecodeError\<close>, which is not an
  \<^verbatim>\<open>OSError\<close>. The failures carry the error's text.
\<close>

datatype fs_entry = Readable string | Unreadable string | Undecodable string

text \<open>
  What \<^verbatim>\<open>path.exists()\<close> does for a string taken as a path: it returns \<^verbatim>\<open>False\<close>, it
  returns \<^verbatim>\<open>True\<close> (and the path names an entry), or it raises: pathlib turns only the
  errors of a missing path into \<^verbatim>\<open>False\<close> and raises every other \<^verbatim>\<open>OSError\<close> again, as
  for a name longer than the file system allows, or a directory that may not be
  searched.
\<close>

datatype path_status = Missing | Exists fs_entry | Exists_raises string

text \<open>
  What \<^verbatim>\<open>json.loads\<close> does with a text: it returns the value, it raises
  \<^verbatim>\<open>JSONDecodeError\<close>, or it raises something else (\<^verbatim>\<open>ValueError\<close> for an integer of more
  digits than the interpreter converts, \<^verbatim>\<open>RecursionError\<close> for brackets nested too
  deep).
\<close>

datatype loads_result = Loaded json | JSONDecodeError | Loads_raises exc

text \<open>
  The environment of an invocation, everything the two modules call but do not define:
  \<^item> \<open>fs\<close>: the file system, from the string given to \<^verbatim>\<open>pathlib.Path\<close> to what
    \<^verbatim>\<open>path.exists()\<close> does and what the path names;
  \<^item> \<open>json_loads\<close>: \<^verbatim>\<open>json.loads\<close>;
  \<^item> \<open>float_repr\<close>: how \<^verbatim>\<open>json.dumps\<close> writes a float;
  \<^item> \<open>get_config\<close>, \<open>get_server_api\<close>: \<^verbatim>\<open>binstar_client.utils\<close>.
\<close>

record env =
  fs :: "string \<Rightarrow> path_status"
  json_loads :: "string \<Rightarrow> loads_result"
  float_repr :: "64 word \<Rightarrow> string"
  get_config :: "string option \<Rightarrow> (string \<times> string) list"
  get_server_api :: "string option \<Rightarrow> string option \<Rightarrow> (string \<times> string) list \<Rightarrow> api"

text \<open>Sequencing: the events of what ran first, then those of what ran next.\<close>

fun after :: "event list \<Rightarrow> event list \<times> 'a \<Rightarrow> event list \<times> 'a" where
  "after evs (evs', r) = (evs @ evs', r)"

section \<open>notices.py\<close>

subsection \<open>NoticesAction\<close>

text \<open>
  The value argparse hands to an action: for \<^verbatim>\<open>--create\<close> (one argument, no \<^verbatim>\<open>type\<close>)
  always a \<^verbatim>\<open>str\<close>; \<open>NotStr\<close> is anything \<^verbatim>\<open>pathlib.Path\<close> raises \<^verbatim>\<open>TypeError\<close> on.
\<close>

datatype argval = Str string | NotStr

text \<open>
  \<^verbatim>\<open>NoticesAction.__call__(parser, namespace, values)\<close>. The result is the log records
  written, the namespace as the call leaves it, and the exception raised, if any. The
  steps are the source's: build the path (\<^verbatim>\<open>TypeError\<close> is caught); test
  \<^verbatim>\<open>path.exists()\<close>, outside every \<^verbatim>\<open>try\<close>, so what it raises leaves the call as it
  is; open and read the file when the path exists, where only \<^verbatim>\<open>OSError\<close> is caught;
  parse the text, where only \<^verbatim>\<open>JSONDecodeError\<close> is caught; and only then
  \<^verbatim>\<open>setattr(namespace, self.dest, data)\<close>, with \<^verbatim>\<open>dest='notices'\<close>. A caught exception is
  logged and becomes \<^verbatim>\<open>SystemExit(1)\<close>; any other leaves with nothing logged.
\<close>

definition NoticesAction_call ::
  "env \<Rightarrow> namespace \<Rightarrow> argval \<Rightarrow> event list \<times> namespace \<times> exc option" where
  "NoticesAction_call e namespace values =
    (case values of
       NotStr \<Rightarrow>
         ([Log ERROR ''Notices argument must be defined as a string''], namespace,
          Some (SystemExit 1))
     | Str path \<Rightarrow>
         (case (case fs e path of
                  Exists_raises error \<Rightarrow> Inl ([], OSError error)
                | Missing \<Rightarrow> Inr path
                | Exists (Readable text) \<Rightarrow> Inr text
                | Exists (Unreadable error) \<Rightarrow>
                    Inl ([Log ERROR (''Unable to read provided JSON file: '' @ error)],
                         SystemExit 1)
                | Exists (Undecodable error) \<Rightarrow> Inl ([], UnicodeDecodeError error)) of
            Inl (evs, err) \<Rightarrow> (evs, namespace, Some err)
          | Inr values' \<Rightarrow>
              (case json_loads e values' of
                 JSONDecodeError \<Rightarrow>
                   ([Log ERROR
                       ''Unable to parse provided JSON; please make sure it is valid JSON''],
                    namespace, Some (SystemExit 1))
               | Loads_raises err \<Rightarrow> ([], namespace, Some err)
               | Loaded data \<Rightarrow> ([], namespace\<lparr>notices := data\<rparr>, None))))"

subsection \<open>api_user\<close>

definition owner_message :: string where
  "owner_message = ''Unable to determine owner in user; please make sure you are logged in''"

text \<open>
  \<^verbatim>\<open>api_user(func)\<close>, the decorator: \<open>api_user func e\<close> is \<^verbatim>\<open>inner\<close>. A handler returns
  the events it caused and the exception it raised (\<open>None\<close>: it returned).
\<close>

definition api_user ::
  "(namespace \<Rightarrow> event list \<times> exc option) \<Rightarrow> env \<Rightarrow> namespace \<Rightarrow> event list \<times> exc option"
  where
  "api_user func e args =
    (let h = get_server_api e (token args) (site args) (get_config e (site args));
         args = args\<lparr>api := Some h\<rparr>
     in case check_server h of
          Some err \<Rightarrow> ([ApiCall CheckServer], Some err)
        | None \<Rightarrow>
            if user args = None then
              (case user_info h of
                 Inl err \<Rightarrow> ([ApiCall CheckServer, ApiCall UserCall], Some err)
               | Inr info \<Rightarrow>
                   (let args = args\<lparr>user := info ''login''\<rparr>
                    in if user args = None then
                         ([ApiCall CheckServer, ApiCall UserCall, Log ERROR owner_message],
                          Some (BinstarError owner_message))
                       else after [ApiCall CheckServer, ApiCall UserCall] (func args)))
            else after [ApiCall CheckServer] (func args))"

subsection \<open>json.dumps(notices, indent=2)\<close>

text \<open>
  Python's \<^verbatim>\<open>json.dumps\<close> with an indent and every other option at its default
  (\<^verbatim>\<open>ensure_ascii=True\<close>, separators \<^verbatim>\<open>','\<close> and \<^verbatim>\<open>': '\<close>), after the encoder of the
  standard library (\<^verbatim>\<open>json/encoder.py\<close>). A \<open>char\<close> stands for the code point of its
  number, so the strings covered are those of code points below 256; dict keys are
  strings, as in every dict \<^verbatim>\<open>json.loads\<close> builds.
\<close>

definition digit_char :: "nat \<Rightarrow> char" where
  "digit_char n = ''0123456789abcdef'' ! (n mod 16)"

fun str_nat :: "nat \<Rightarrow> string" where
  "str_nat n = (if n < 10 then [digit_char n] else str_nat (n div 10) @ [digit_char (n mod 10)])"

declare str_nat.simps [simp del]

definition str_int :: "int \<Rightarrow> string" where
  "str_int i = (if i < 0 then CHR ''-'' # str_nat (nat (- i)) else str_nat (nat i))"

definition escape_char :: "char \<Rightarrow> string" where
  "escape_char c =
    (if c = CHR 0x5C then [CHR 0x5C, CHR 0x5C]
     else if c = CHR 0x22 then [CHR 0x5C, CHR 0x22]
     else if c = CHR 0x08 then [CHR 0x5C, CHR ''b'']
     else if c = CHR 0x0C then [CHR 0x5C, CHR ''f'']
     else if c = CHR 0x0A then [CHR 0x5C, CHR ''n'']
     else if c = CHR 0x0D then [CHR 0x5C, CHR ''r'']
     else if c = CHR 0x09 then [CHR 0x5C, CHR ''t'']
     else if (of_char c :: nat) < 0x20 \<or> 0x7E < (of_char c :: nat) then
       [CHR 0x5C, CHR ''u'', CHR ''0'', CHR ''0'',
        digit_char (of_char c div 16), digit_char (of_char c mod 16)]
     else [c])"

definition encode_basestring_ascii :: "string \<Rightarrow> string" where
  "encode_basestring_ascii s = [CHR 0x22] @ concat (map escape_char s) @ [CHR 0x22]"

definition newline_indent :: "nat \<Rightarrow> nat \<Rightarrow> string" where
  "newline_indent indent current_indent_level =
     CHR 0x0A # replicate (indent * current_indent_level) CHR '' ''"

fun iterencode :: "(64 word \<Rightarrow> string) \<Rightarrow> nat \<Rightarrow> nat \<Rightarrow> json \<Rightarrow> string"
  and iterencode_list :: "(64 word \<Rightarrow> string) \<Rightarrow> nat \<Rightarrow> nat \<Rightarrow> json list \<Rightarrow> string"
  and iterencode_dict :: "(64 word \<Rightarrow> string) \<Rightarrow> nat \<Rightarrow> nat \<Rightarrow> (string \<times> json) list \<Rightarrow> string"
  where
  "iterencode fr ind lvl JNull = ''null''"
| "iterencode fr ind lvl (JBool b) = (if b then ''true'' else ''false'')"
| "iterencode fr ind lvl (JInt i) = str_int i"
| "iterencode fr ind lvl (JFloat w) = fr w"
| "iterencode fr ind lvl (JStr s) = encode_basestring_ascii s"
| "iterencode fr ind lvl (JArr lst) =
     (if lst = [] then ''[]''
      else ''['' @ newline_indent ind (lvl + 1) @ iterencode_list fr ind (lvl + 1) lst
           @ newline_indent ind lvl @ '']'')"
| "iterencode fr ind lvl (JObj dct) =
     (if dct = [] then ''{}''
      else ''{'' @ newline_indent ind (lvl + 1) @ iterencode_dict fr ind (lvl + 1) dct
           @ newline_indent ind lvl @ ''}'')"
| "iterencode_list fr ind lvl [] = []"
| "iterencode_list fr ind lvl [v] = iterencode fr ind lvl v"
| "iterencode_list fr ind lvl (v # w # lst) =
     iterencode fr ind lvl v @ '','' @ newline_indent ind lvl
     @ iterencode_list fr ind lvl (w # lst)"
| "iterencode_dict fr ind lvl [] = []"
| "iterencode_dict fr ind lvl [(k, v)] =
     encode_basestring_ascii k @ '': '' @ iterencode fr ind lvl v"
| "iterencode_dict fr ind lvl ((k, v) # kw # dct) =
     encode_basestring_ascii k @ '': '' @ iterencode fr ind lvl v @ '','' @ newline_indent ind lvl
     @ iterencode_dict fr ind lvl (kw # dct)"

definition json_dumps :: "(64 word \<Rightarrow> string) \<Rightarrow> nat \<Rightarrow> json \<Rightarrow> string" where
  "json_dumps fr indent obj = iterencode fr indent 0 obj"

subsection \<open>main\<close>

text \<open>
  The body of \<^verbatim>\<open>main\<close>, under the decorator. \<^verbatim>\<open>args.api\<close> is read only inside a branch
  that is taken. \<^verbatim>\<open>logger.info\<close> is the \<open>Log INFO\<close> record.
\<close>

definition main_body :: "env \<Rightarrow> namespace \<Rightarrow> event list \<times> exc option" where
  "main_body e args =
    (if truthy (notices args) then
       (case api args of
          None \<Rightarrow> ([], Some (AttributeError ''api''))
        | Some h \<Rightarrow>
            ([ApiCall (CreateNotices (user args) (label args) (notices args))],
             create_notices h (user args) (label args) (notices args)))
     else if remove args then
       (case api args of
          None \<Rightarrow> ([], Some (AttributeError ''api''))
        | Some h \<Rightarrow>
            ([ApiCall (RemoveNotices (user args) (label args))],
             remove_notices h (user args) (label args)))
     else if get args then
       (case api args of
          None \<Rightarrow> ([], Some (AttributeError ''api''))
        | Some h \<Rightarrow>
            (case fetch_notices h (user args) (label args) of
               Inl err \<Rightarrow> ([ApiCall (FetchNotices (user args) (label args))], Some err)
             | Inr result \<Rightarrow>
                 ([ApiCall (FetchNotices (user args) (label args)),
                   Log INFO (json_dumps (float_repr e) 2 result)], None)))
     else ([], None))"

text \<open>\<^verbatim>\<open>@api_user def main(args)\<close>: the name \<^verbatim>\<open>main\<close> is the decorated function.\<close>

definition main :: "env \<Rightarrow> namespace \<Rightarrow> event list \<times> exc option" where
  "main e = api_user (main_body e) e"


subsection \<open>add_parser\<close>

text \<open>
  The five arguments \<^verbatim>\<open>add_parser\<close> declares, and the mutually exclusive group it puts
  \<^verbatim>\<open>--create\<close>, \<^verbatim>\<open>--remove\<close> and \<^verbatim>\<open>--get\<close> in. The group is made by
  \<^verbatim>\<open>agroup.add_mutually_exclusive_group()\<close>, so its \<^verbatim>\<open>required\<close> is argparse's default.
\<close>

datatype argument = Arg_label | Arg_user | Arg_create | Arg_remove | Arg_get

definition group_actions :: "argument list" where
  "group_actions = [Arg_create, Arg_remove, Arg_get]"

definition group_required :: bool where
  "group_required = False"

text \<open>
  The command line of the notices command as argparse sees it: the occurrences of the
  declared options, in order, each with its argument string. How argparse matches the
  tokens of \<^verbatim>\<open>sys.argv\<close> to options (abbreviations, \<^verbatim>\<open>--opt=value\<close>) is not modelled.
\<close>

datatype occurrence =
    Label_given string
  | User_given string
  | Create_given string
  | Remove_given
  | Get_given

fun argument_of :: "occurrence \<Rightarrow> argument" where
  "argument_of (Label_given s) = Arg_label"
| "argument_of (User_given s) = Arg_user"
| "argument_of (Create_given s) = Arg_create"
| "argument_of Remove_given = Arg_remove"
| "argument_of Get_given = Arg_get"

text \<open>
  The namespace before any option is seen: \<^verbatim>\<open>default='main'\<close> for the label, \<^verbatim>\<open>None\<close>
  for \<^verbatim>\<open>--user\<close> and \<^verbatim>\<open>--create\<close>, \<^verbatim>\<open>False\<close> for the two \<^verbatim>\<open>store_true\<close> flags. The
  global options \<^verbatim>\<open>token\<close> and \<^verbatim>\<open>site\<close> are declared outside this module and are given.
\<close>

definition default_namespace :: "string option \<Rightarrow> string option \<Rightarrow> namespace" where
  "default_namespace tok st =
     \<lparr>label = ''main'', user = None, notices = JNull, remove = False, get = False,
      token = tok, site = st, api = None\<rparr>"

text \<open>What each argument's action does with the namespace when argparse calls it.\<close>

fun call_action :: "env \<Rightarrow> namespace \<Rightarrow> occurrence \<Rightarrow> event list \<times> namespace \<times> exc option" where
  "call_action e ns (Label_given s) = ([], ns\<lparr>label := s\<rparr>, None)"
| "call_action e ns (User_given s) = ([], ns\<lparr>user := Some s\<rparr>, None)"
| "call_action e ns (Create_given s) = NoticesAction_call e ns (Str s)"
| "call_action e ns Remove_given = ([], ns\<lparr>remove := True\<rparr>, None)"
| "call_action e ns Get_given = ([], ns\<lparr>get := True\<rparr>, None)"

text \<open>
  argparse's \<^verbatim>\<open>take_action\<close> inside \<^verbatim>\<open>parse_known_args\<close>: an argument of a mutually
  exclusive group conflicts with the other arguments of the group; seeing it after one
  of them is the usage error \<^verbatim>\<open>not allowed with argument ...\<close> (exit status 2), raised
  before the action is called.
\<close>

definition action_conflicts :: "argument \<Rightarrow> argument list" where
  "action_conflicts a = (if a \<in> set group_actions then removeAll a group_actions else [])"

definition take_action ::
  "env \<Rightarrow> namespace \<Rightarrow> argument list \<Rightarrow> occurrence
     \<Rightarrow> event list \<times> (exc + namespace \<times> argument list)" where
  "take_action e ns seen occ =
    (if set (action_conflicts (argument_of occ)) \<inter> set seen \<noteq> {} then ([], Inl (SystemExit 2))
     else case call_action e ns occ of
            (evs, ns', Some err) \<Rightarrow> (evs, Inl err)
          | (evs, ns', None) \<Rightarrow> (evs, Inr (ns', argument_of occ # seen)))"

fun consume ::
  "env \<Rightarrow> namespace \<Rightarrow> argument list \<Rightarrow> occurrence list
     \<Rightarrow> event list \<times> (exc + namespace \<times> argument list)" where
  "consume e ns seen [] = ([], Inr (ns, seen))"
| "consume e ns seen (occ # occs) =
    (case take_action e ns seen occ of
       (evs, Inl err) \<Rightarrow> (evs, Inl err)
     | (evs, Inr (ns', seen')) \<Rightarrow> after evs (consume e ns' seen' occs))"

text \<open>
  \<^verbatim>\<open>parse_args\<close>: all occurrences are consumed; a required group none of whose
  arguments was seen is a usage error too.
\<close>

definition parse_args ::
  "env \<Rightarrow> string option \<Rightarrow> string option \<Rightarrow> occurrence list \<Rightarrow> event list \<times> (exc + namespace)"
  where
  "parse_args e tok st occs =
    (case consume e (default_namespace tok st) [] occs of
       (evs, Inl err) \<Rightarrow> (evs, Inl err)
     | (evs, Inr (ns, seen)) \<Rightarrow>
         if group_required \<and> set group_actions \<inter> set seen = {} then (evs, Inl (SystemExit 2))
         else (evs, Inr ns))"

text \<open>
  One invocation of the notices command: the command line is parsed and, as
  \<^verbatim>\<open>parser.set_defaults(main=main)\<close> arranges, \<^verbatim>\<open>args.main(args)\<close> is called with the
  namespace.
\<close>

definition notices_command ::
  "env \<Rightarrow> string option \<Rightarrow> string option \<Rightarrow> occurrence list \<Rightarrow> event list \<times> exc option" where
  "notices_command e tok st occs =
    (case parse_args e tok st occs of
       (evs, Inl err) \<Rightarrow> (evs, Some err)
     | (evs, Inr args) \<Rightarrow> after evs (main e args))"

text \<open>
  The status the process ends with: that of a \<^verbatim>\<open>SystemExit\<close>, 0 when the handler
  returns, and Python's 1 for any other exception that is not caught.
\<close>

fun exit_status :: "exc option \<Rightarrow> nat" where
  "exit_status None = 0"
| "exit_status (Some (SystemExit n)) = n"
| "exit_status (Some err) = 1"

text \<open>The three operations on notices, among the calls of the API handle.\<close>

fun is_notices_op :: "event \<Rightarrow> bool" where
  "is_notices_op (ApiCall (CreateNotices u l p)) = True"
| "is_notices_op (ApiCall (RemoveNotices u l)) = True"
| "is_notices_op (ApiCall (FetchNotices u l)) = True"
| "is_notices_op ev = False"

fun is_api_call :: "event \<Rightarrow> bool" where
  "is_api_call (ApiCall c) = True"
| "is_api_call ev = False"


text \<open>
  Which of \<^verbatim>\<open>--create\<close>, \<^verbatim>\<open>--remove\<close> and \<^verbatim>\<open>--get\<close> a namespace shows as given: a
  payload other than the default \<^verbatim>\<open>None\<close>, and the two flags.
\<close>

definition selected :: "namespace \<Rightarrow> argument list" where
  "selected ns =
     (if notices ns \<noteq> JNull then [Arg_create] else [])
     @ (if remove ns then [Arg_remove] else [])
     @ (if get ns then [Arg_get] else [])"

section \<open>plugins.py\<close>

text \<open>The sets of subcommand names.\<close>

definition ALL_SUBCOMMANDS :: "string set" where
  "ALL_SUBCOMMANDS =
     {''auth'', ''channel'', ''config'', ''copy'', ''download'', ''groups'', ''label'',
      ''login'', ''logout'', ''move'', ''notebook'', ''package'', ''remove'', ''search'',
      ''show'', ''update'', ''upload'', ''whoami''}"

definition NON_HIDDEN_SUBCOMMANDS :: "string set" where
  "NON_HIDDEN_SUBCOMMANDS = {''upload''}"

definition DEPRECATED_SUBCOMMANDS :: "string set" where
  "DEPRECATED_SUBCOMMANDS = {''notebook''}"

definition SUBCOMMANDS_WITH_NEW_CLI :: "string set" where
  "SUBCOMMANDS_WITH_NEW_CLI =
     {''auth'', ''channel'', ''config'', ''copy'', ''groups'', ''label'', ''move'', ''package'',
      ''remove'', ''search'', ''show'', ''update'', ''upload'', ''whoami''}"

text \<open>
  A command's callback takes no argument and reads \<^verbatim>\<open>sys.argv\<close>: here a function of
  \<^verbatim>\<open>sys.argv\<close>, giving the events caused and the exception raised, if any.
\<close>

type_synonym callback = "string list \<Rightarrow> event list \<times> exc option"

text \<open>
  What the module takes from outside:
  \<^item> \<open>environ\<close>: the process environment, for \<^verbatim>\<open>os.getenv\<close>;
  \<^item> \<open>binstar_main\<close>: the legacy dispatcher \<^verbatim>\<open>binstar_client.scripts.cli.main\<close>, called
    with the argument list and \<^verbatim>\<open>allow_plugin_main\<close>;
  \<^item> \<open>styled_deprecated\<close>: \<^verbatim>\<open>typer.style("(deprecated)", fg=typer.colors.RED, bold=True)\<close>;
  \<^item> \<open>description_of\<close>: the description of each subcommand's parser in the legacy
    parser that \<^verbatim>\<open>add_subparser_modules\<close> fills (\<open>None\<close>: no such parser, or no
    description).
\<close>

record plugin_env =
  environ :: "string \<rightharpoonup> string"
  binstar_main :: "string list \<Rightarrow> bool \<Rightarrow> event list \<times> exc option"
  styled_deprecated :: string
  description_of :: "string \<rightharpoonup> string"

text \<open>\<^verbatim>\<open>bool(os.getenv(name, False))\<close>: the variable is set, and not to the empty string.\<close>

definition getenv_flag :: "plugin_env \<Rightarrow> string \<Rightarrow> bool" where
  "getenv_flag p name = (case environ p name of None \<Rightarrow> False | Some v \<Rightarrow> v \<noteq> [])"

text \<open>\<^verbatim>\<open>str.strip()\<close>, on code points below 256.\<close>

definition isspace :: "char \<Rightarrow> bool" where
  "isspace c =
     ((0x09 \<le> (of_char c :: nat) \<and> (of_char c :: nat) \<le> 0x0D)
      \<or> (0x1C \<le> (of_char c :: nat) \<and> (of_char c :: nat) \<le> 0x20)
      \<or> (of_char c :: nat) = 0x85 \<or> (of_char c :: nat) = 0xA0)"

definition strip :: "string \<Rightarrow> string" where
  "strip s = rev (dropWhile isspace (rev (dropWhile isspace s)))"

definition get_help_text :: "plugin_env \<Rightarrow> string \<Rightarrow> string" where
  "get_help_text p name =
     (case description_of p name of None \<Rightarrow> [] | Some description \<Rightarrow> strip description)"

definition deprecation_message :: "string \<Rightarrow> string" where
  \<open>deprecation_message name =
     ''The existing anaconda-client commands will be deprecated. To maintain compatibility, ''
     @ ''please either pin `anaconda-client<2` or update your system call with the `org` prefix, ''
     @ ''e.g. "anaconda org '' @ name @ '' ..."''\<close>

text \<open>\<^verbatim>\<open>_deprecate(name, func)\<close>: \<^verbatim>\<open>new_func\<close> logs the warning, then returns \<^verbatim>\<open>func()\<close>.\<close>

definition deprecate :: "string \<Rightarrow> callback \<Rightarrow> callback" where
  "deprecate name func =
     (\<lambda>sys_argv. after [Log WARNING (deprecation_message name)] (func sys_argv))"

text \<open>
  \<^verbatim>\<open>_subcommand()\<close>: \<^verbatim>\<open>sys.argv[1:]\<close> without the elements equal to \<^verbatim>\<open>"org"\<close>, handed to
  the legacy dispatcher with \<^verbatim>\<open>allow_plugin_main=False\<close>.
\<close>

definition subcommand :: "plugin_env \<Rightarrow> callback" where
  "subcommand p sys_argv =
     (let args = filter (\<lambda>arg. arg \<noteq> ''org'') (drop 1 sys_argv)
      in binstar_main p args False)"

text \<open>
  What a typer application holds under a command name: a callback registered by
  \<^verbatim>\<open>app.command(name=..., help=..., hidden=...)(func)\<close>, or what the \<^verbatim>\<open>mount_subcommand\<close>
  of a module of \<^verbatim>\<open>binstar_client.commands\<close> mounts (that routine is outside this
  module; the module name and the arguments it is given are kept).
\<close>

datatype registered =
    Legacy callback string bool
  | New_style string string bool

record apps =
  app :: "string \<rightharpoonup> registered"
  main_app :: "string \<rightharpoonup> registered"

definition load_new_subcommand ::
  "(string \<rightharpoonup> registered) \<Rightarrow> string \<Rightarrow> string \<Rightarrow> bool \<Rightarrow> (string \<rightharpoonup> registered)" where
  "load_new_subcommand a name help_text hidden =
     (let mod_name =
            (if name = ''label'' then ''channel''
             else if name = ''auth'' then ''authorizations''
             else name)
      in a(name \<mapsto> New_style mod_name help_text hidden))"

definition mount_subcommand ::
  "plugin_env \<Rightarrow> string \<Rightarrow> string \<Rightarrow> bool \<Rightarrow> bool \<Rightarrow> bool \<Rightarrow> apps \<Rightarrow> apps" where
  "mount_subcommand p name help_text is_deprecated mount_to_main is_hidden_on_main st =
    (let force_use_new_cli = getenv_flag p ''ANACONDA_CLI_FORCE_NEW'';
         main_help_text =
           ''anaconda.org: '' @ (if help_text \<noteq> [] then help_text @ '' '' else [])
           @ ''(alias for '' @ [CHR 0x27] @ ''anaconda org '' @ name @ [CHR 0x27] @ '')'';
         help_text = (if is_deprecated then styled_deprecated p @ '' '' @ help_text else help_text);
         func = (if is_deprecated then deprecate name (subcommand p) else subcommand p)
     in if force_use_new_cli \<and> name \<in> SUBCOMMANDS_WITH_NEW_CLI then
          (let st = st\<lparr>app := load_new_subcommand (app st) name help_text False\<rparr>
           in if mount_to_main then
                st\<lparr>main_app :=
                     load_new_subcommand (main_app st) name main_help_text is_hidden_on_main\<rparr>
              else st)
        else
          (let st = st\<lparr>app := (app st)(name \<mapsto> Legacy func help_text False)\<rparr>
           in if \<not> mount_to_main then st
              else st\<lparr>main_app :=
                        (main_app st)(name \<mapsto> Legacy func main_help_text is_hidden_on_main)\<rparr>))"

text \<open>
  \<^verbatim>\<open>load_legacy_subcommands()\<close>. Python does not fix the order in which
  \<^verbatim>\<open>for name in ALL_SUBCOMMANDS\<close> visits a set: \<open>names\<close> is that order, a list of the
  elements of the set, each once (\<open>iteration_of\<close>).
\<close>

definition iteration_of :: "string set \<Rightarrow> string list \<Rightarrow> bool" where
  "iteration_of S names = (set names = S \<and> distinct names)"

definition load_legacy_subcommands :: "plugin_env \<Rightarrow> string list \<Rightarrow> apps \<Rightarrow> apps" where
  "load_legacy_subcommands p names st =
    (if getenv_flag p ''ANACONDA_CLIENT_FORCE_STANDALONE'' then st
     else fold (\<lambda>name.
                  mount_subcommand p name (get_help_text p name)
                    (name \<in> DEPRECATED_SUBCOMMANDS)
                    (name \<notin> {''login'', ''logout'', ''whoami''})
                    (name \<notin> NON_HIDDEN_SUBCOMMANDS))
            names st)"

text \<open>Invoking what an application holds under a name, when that is a legacy callback.\<close>

definition invoke :: "(string \<rightharpoonup> registered) \<Rightarrow> string \<Rightarrow> string list \<Rightarrow> (event list \<times> exc option) option"
  where
  "invoke a name sys_argv =
     (case a name of
        Some (Legacy func help_text hidden) \<Rightarrow> Some (func sys_argv)
      | _ \<Rightarrow> None)"

section \<open>An example environment\<close>

text \<open>
  A reader of JSON texts, to stand for \<^verbatim>\<open>json.loads\<close> in the example environment on the
  texts the examples use. It reads white space, \<^verbatim>\<open>null\<close>, \<^verbatim>\<open>true\<close>, \<^verbatim>\<open>false\<close>,
  integers, strings without escape sequences, arrays and objects (a repeated key keeps
  its first place and its last value, as a Python dict does), and no other text; on every
  other text the example's \<open>json_loads\<close> raises \<^verbatim>\<open>JSONDecodeError\<close>. No statement about
  the program depends on it: each holds for every \<open>json_loads\<close>.
\<close>

definition is_ws :: "char \<Rightarrow> bool" where
  "is_ws c = (c = CHR '' '' \<or> c = CHR 0x09 \<or> c = CHR 0x0A \<or> c = CHR 0x0D)"

definition skip_ws :: "string \<Rightarrow> string" where
  "skip_ws = dropWhile is_ws"

definition is_digit :: "char \<Rightarrow> bool" where
  "is_digit c = (0x30 \<le> (of_char c :: nat) \<and> (of_char c :: nat) \<le> 0x39)"

definition int_of_digits :: "string \<Rightarrow> int" where
  "int_of_digits ds = foldl (\<lambda>n c. 10 * n + (int (of_char c) - 0x30)) 0 ds"

fun scan_string :: "string \<Rightarrow> (string \<times> string) option" where
  "scan_string [] = None"
| "scan_string (c # cs) =
    (if c = CHR 0x22 then Some ([], cs)
     else if c = CHR 0x5C \<or> (of_char c :: nat) < 0x20 then None
     else map_option (\<lambda>(s, rest). (c # s, rest)) (scan_string cs))"

definition scan_digits :: "string \<Rightarrow> (int \<times> string) option" where
  "scan_digits cs =
    (case cs of
       [] \<Rightarrow> None
     | c # rest \<Rightarrow>
         if c = CHR ''0'' then Some (0, rest)
         else if is_digit c then Some (int_of_digits (takeWhile is_digit cs), dropWhile is_digit cs)
         else None)"

definition scan_number :: "string \<Rightarrow> (json \<times> string) option" where
  "scan_number cs =
    (case cs of
       [] \<Rightarrow> None
     | c # rest \<Rightarrow>
         if c = CHR ''-'' then map_option (\<lambda>(n, r). (JInt (- n), r)) (scan_digits rest)
         else map_option (\<lambda>(n, r). (JInt n, r)) (scan_digits cs))"

fun dict_set :: "string \<Rightarrow> json \<Rightarrow> (string \<times> json) list \<Rightarrow> (string \<times> json) list" where
  "dict_set k v [] = [(k, v)]"
| "dict_set k v ((k', v') # d) = (if k' = k then (k, v) # d else (k', v') # dict_set k v d)"

definition dict_of_pairs :: "(string \<times> json) list \<Rightarrow> (string \<times> json) list" where
  "dict_of_pairs pairs = foldl (\<lambda>d (k, v). dict_set k v d) [] pairs"

text \<open>
  The first argument bounds the depth of the recursion; twice the length of the text is
  enough, since every second call consumes a character.
\<close>

fun scan_value :: "nat \<Rightarrow> string \<Rightarrow> (json \<times> string) option"
  and scan_items :: "nat \<Rightarrow> string \<Rightarrow> (json list \<times> string) option"
  and scan_pairs :: "nat \<Rightarrow> string \<Rightarrow> ((string \<times> json) list \<times> string) option"
  where
  "scan_value 0 cs = None"
| "scan_value (Suc n) cs =
    (case cs of
       [] \<Rightarrow> None
     | c # rest \<Rightarrow>
         if c = CHR 0x22 then map_option (\<lambda>(s, r). (JStr s, r)) (scan_string rest)
         else if c = CHR ''{'' then
           (case skip_ws rest of
              [] \<Rightarrow> None
            | c' # rest' \<Rightarrow>
                if c' = CHR ''}'' then Some (JObj [], rest')
                else map_option (\<lambda>(pairs, r). (JObj (dict_of_pairs pairs), r))
                       (scan_pairs n (c' # rest')))
         else if c = CHR ''['' then
           (case skip_ws rest of
              [] \<Rightarrow> None
            | c' # rest' \<Rightarrow>
                if c' = CHR '']'' then Some (JArr [], rest')
                else map_option (\<lambda>(vs, r). (JArr vs, r)) (scan_items n (c' # rest')))
         else if take 4 cs = ''null'' then Some (JNull, drop 4 cs)
         else if take 4 cs = ''true'' then Some (JBool True, drop 4 cs)
         else if take 5 cs = ''false'' then Some (JBool False, drop 5 cs)
         else scan_number cs)"
| "scan_items 0 cs = None"
| "scan_items (Suc n) cs =
    (case scan_value n cs of
       None \<Rightarrow> None
     | Some (v, r) \<Rightarrow>
         (case skip_ws r of
            [] \<Rightarrow> None
          | c # rest \<Rightarrow>
              if c = CHR '','' then
                map_option (\<lambda>(vs, r'). (v # vs, r')) (scan_items n (skip_ws rest))
              else if c = CHR '']'' then Some ([v], rest)
              else None))"
| "scan_pairs 0 cs = None"
| "scan_pairs (Suc n) cs =
    (case cs of
       [] \<Rightarrow> None
     | q # rest \<Rightarrow>
         if q \<noteq> CHR 0x22 then None
         else
           (case scan_string rest of
              None \<Rightarrow> None
            | Some (k, r1) \<Rightarrow>
                (case skip_ws r1 of
                   [] \<Rightarrow> None
                 | c # r2 \<Rightarrow>
                     if c \<noteq> CHR '':'' then None
                     else
                       (case scan_value n (skip_ws r2) of
                          None \<Rightarrow> None
                        | Some (v, r3) \<Rightarrow>
                            (case skip_ws r3 of
                               [] \<Rightarrow> None
                             | c' # r4 \<Rightarrow>
                                 if c' = CHR '','' then
                                   map_option (\<lambda>(pairs, r'). ((k, v) # pairs, r'))
                                     (scan_pairs n (skip_ws r4))
                                 else if c' = CHR ''}'' then Some ([(k, v)], r4)
                                 else None)))))"

definition read_json :: "string \<Rightarrow> json option" where
  "read_json s =
    (case scan_value (2 * length s + 2) (skip_ws s) of
       None \<Rightarrow> None
     | Some (v, rest) \<Rightarrow> if skip_ws rest = [] then Some v else None)"

text \<open>
  An API handle on which every operation succeeds: the caller is logged in as
  \<^verbatim>\<open>alice\<close>, and the channel has no notices. \<open>anonymous_api\<close> is a handle on which
  \<^verbatim>\<open>user()\<close> returns a dict with no login.
\<close>

definition example_api :: api where
  "example_api =
     \<lparr>check_server = None,
      user_info = Inr [''login'' \<mapsto> ''alice''],
      create_notices = (\<lambda>account label payload. None),
      remove_notices = (\<lambda>account label. None),
      fetch_notices = (\<lambda>account label. Inr (JObj [(''notices'', JArr [])]))\<rparr>"

definition anonymous_api :: api where
  "anonymous_api = example_api\<lparr>user_info := Inr Map.empty\<rparr>"

text \<open>
  A file system with a notices file, a file named \<^verbatim>\<open>1\<close>, a file whose text is the name
  of that file, a file that cannot be read and a file that is not text. As on Linux, a
  name of more than 255 characters between slashes makes \<^verbatim>\<open>path.exists()\<close> raise. The
  site \<^verbatim>\<open>anon\<close> is served by the handle without a login.
\<close>

definition example_files :: "string \<rightharpoonup> fs_entry" where
  \<open>example_files =
     [''./notice.json'' \<mapsto> Readable ''{"x":2}'',
      ''1'' \<mapsto> Readable ''2'',
      ''one.json'' \<mapsto> Readable ''1'',
      ''locked.json'' \<mapsto> Unreadable ''[Errno 13] Permission denied'',
      ''logo.png'' \<mapsto> Undecodable ''invalid start byte'']\<close>

fun name_too_long :: "nat \<Rightarrow> string \<Rightarrow> bool" where
  "name_too_long n [] = (255 < n)"
| "name_too_long n (c # cs) =
     (if c = CHR ''/'' then 255 < n \<or> name_too_long 0 cs else name_too_long (Suc n) cs)"

definition example_fs :: "string \<Rightarrow> path_status" where
  "example_fs path =
     (if name_too_long 0 path then Exists_raises ''[Errno 36] File name too long''
      else case example_files path of None \<Rightarrow> Missing | Some entry \<Rightarrow> Exists entry)"

definition example_loads :: "string \<Rightarrow> loads_result" where
  "example_loads s = (case read_json s of None \<Rightarrow> JSONDecodeError | Some v \<Rightarrow> Loaded v)"

definition example_env :: env where
  "example_env =
     \<lparr>fs = example_fs,
      json_loads = example_loads,
      float_repr = (\<lambda>w. ''0.0''),
      get_config = (\<lambda>st. []),
      get_server_api = (\<lambda>tok st config. if st = Some ''anon'' then anonymous_api else example_api)\<rparr>"


text \<open>
  A legacy dispatcher that logs the arguments it is given, one record each, and returns;
  a process without environment variables.
\<close>

definition example_dispatcher :: "string list \<Rightarrow> bool \<Rightarrow> event list \<times> exc option" where
  "example_dispatcher args allow_plugin_main = (map (Log INFO) args, None)"

definition example_plugin_env :: plugin_env where
  "example_plugin_env =
     \<lparr>environ = Map.empty,
      binstar_main = example_dispatcher,
      styled_deprecated = ''(deprecated)'',
      description_of = [''notebook'' \<mapsto> ''Interact with notebooks '']\<rparr>"

definition no_apps :: apps where
  "no_apps = \<lparr>app = Map.empty, main_app = Map.empty\<rparr>"

text \<open>The names in the order the source writes them.\<close>

definition example_order :: "string list" where
  "example_order =
     [''auth'', ''channel'', ''config'', ''copy'', ''download'', ''groups'', ''label'',
      ''login'', ''logout'', ''move'', ''notebook'', ''package'', ''remove'', ''search'',
      ''show'', ''update'', ''upload'', ''whoami'']"


section \<open>Properties\<close>

subsection \<open>Events of the parser\<close>

text \<open>
  A parse that succeeds has logged nothing; no parse calls the API.
\<close>

lemma after_conv: "after evs x = (evs @ fst x, snd x)"
  by (cases x) simp

lemma call_action_events:
  "call_action e ns occ = (evs, ns', None) \<Longrightarrow> evs = []"
  by (cases occ) (auto simp: NoticesAction_call_def split: path_status.splits fs_entry.splits loads_result.splits sum.splits prod.splits)

lemma take_action_events:
  "take_action e ns seen occ = (evs, Inr r) \<Longrightarrow> evs = []"
  by (auto simp: take_action_def split: if_splits prod.splits option.splits dest: call_action_events)

lemma consume_events:
  "consume e ns seen occs = (evs, Inr r) \<Longrightarrow> evs = []"
proof (induction occs arbitrary: ns seen evs)
  case Nil
  then show ?case by simp
next
  case (Cons occ occs)
  from Cons.prems obtain evs1 ns1 seen1 evs2 where
    t: "take_action e ns seen occ = (evs1, Inr (ns1, seen1))" and
    c: "consume e ns1 seen1 occs = (evs2, Inr r)" and
    e: "evs = evs1 @ evs2"
    by (auto simp: after_conv split: prod.splits sum.splits) (metis prod.collapse)
  from take_action_events [OF t] Cons.IH [OF c] e show ?case by simp
qed

lemma parse_args_events:
  "parse_args e tok st occs = (evs, Inr args) \<Longrightarrow> evs = []"
  by (auto simp: parse_args_def split: prod.splits sum.splits if_splits dest: consume_events)

lemma call_action_no_api_call:
  "call_action e ns occ = (evs, r) \<Longrightarrow> filter is_api_call evs = []"
  by (cases occ) (auto simp: NoticesAction_call_def split: path_status.splits fs_entry.splits loads_result.splits sum.splits prod.splits argval.splits)

lemma take_action_no_api_call:
  "take_action e ns seen occ = (evs, r) \<Longrightarrow> filter is_api_call evs = []"
  by (auto simp: take_action_def split: if_splits prod.splits option.splits dest: call_action_no_api_call)

lemma consume_no_api_call:
  "consume e ns seen occs = (evs, r) \<Longrightarrow> filter is_api_call evs = []"
proof (induction occs arbitrary: ns seen evs r)
  case Nil
  then show ?case by simp
next
  case (Cons occ occs)
  show ?case
  proof (cases "take_action e ns seen occ")
    case (Pair evs1 r1)
    then have h1: "filter is_api_call evs1 = []" by (rule take_action_no_api_call)
    show ?thesis
    proof (cases r1)
      case (Inl err)
      with Pair Cons.prems h1 show ?thesis by simp
    next
      case (Inr st)
      obtain ns' seen' where st: "st = (ns', seen')" by (cases st)
      obtain evs2 r2 where c2: "consume e ns' seen' occs = (evs2, r2)" by (cases "consume e ns' seen' occs")
      from Cons.IH [OF c2] have "filter is_api_call evs2 = []" .
      with Pair Inr st c2 Cons.prems h1 show ?thesis by auto
    qed
  qed
qed

subsection \<open>The mutually exclusive group\<close>

text \<open>
  While the occurrences are consumed, every action the namespace shows as selected has been
  seen, and at most one argument of the group has been seen.
\<close>

lemma call_action_selected:
  "call_action e ns occ = (evs, ns', None) \<Longrightarrow>
     set (selected ns') \<subseteq> insert (argument_of occ) (set (selected ns))"
  by (cases occ) (auto simp: NoticesAction_call_def selected_def split: path_status.splits fs_entry.splits loads_result.splits sum.splits prod.splits if_splits)

lemma take_action_invariant:
  assumes "take_action e ns seen occ = (evs, Inr (ns', seen'))"
      and "set (selected ns) \<subseteq> set seen"
      and "set seen \<inter> set group_actions \<subseteq> {a}"
  shows "set (selected ns') \<subseteq> set seen' \<and> (\<exists>b. set seen' \<inter> set group_actions \<subseteq> {b}) \<and> set seen \<subseteq> set seen'
     \<and> argument_of occ \<in> set seen'"
proof -
  from assms(1) obtain evs1 where
    ca: "call_action e ns occ = (evs1, ns', None)" and s': "seen' = argument_of occ # seen"
    and nc: "set (action_conflicts (argument_of occ)) \<inter> set seen = {}"
    by (auto simp: take_action_def split: if_splits prod.splits option.splits)
  from call_action_selected [OF ca] assms(2) s' have 1: "set (selected ns') \<subseteq> set seen'" by auto
  have 2: "\<exists>b. set seen' \<inter> set group_actions \<subseteq> {b}"
  proof (cases "argument_of occ \<in> set group_actions")
    case True
    with nc have "set seen \<inter> set group_actions \<subseteq> {argument_of occ}"
      by (auto simp: action_conflicts_def)
    with s' show ?thesis by auto
  next
    case False
    with s' assms(3) show ?thesis by auto
  qed
  from 1 2 s' show ?thesis by auto
qed

lemma consume_invariant:
  "consume e ns seen occs = (evs, Inr (ns', seen')) \<Longrightarrow> set (selected ns) \<subseteq> set seen \<Longrightarrow>
   set seen \<inter> set group_actions \<subseteq> {a} \<Longrightarrow>
   set (selected ns') \<subseteq> set seen' \<and> (\<exists>b. set seen' \<inter> set group_actions \<subseteq> {b})"
proof (induction occs arbitrary: ns seen evs a)
  case Nil
  then show ?case by auto
next
  case (Cons occ occs)
  from Cons.prems(1) obtain evs1 ns1 seen1 evs2 where
    t: "take_action e ns seen occ = (evs1, Inr (ns1, seen1))" and
    c: "consume e ns1 seen1 occs = (evs2, Inr (ns', seen'))"
    by (auto simp: after_conv split: prod.splits sum.splits) (metis prod.collapse)
  from take_action_invariant [OF t Cons.prems(2) Cons.prems(3)] obtain b where
    "set (selected ns1) \<subseteq> set seen1" "set seen1 \<inter> set group_actions \<subseteq> {b}" by auto
  from Cons.IH [OF c this] show ?case .
qed

lemma selected_distinct: "distinct (selected ns)"
  by (simp add: selected_def)

lemma parse_args_at_most_one:
  assumes "parse_args e tok st occs = (evs, Inr args)"
  shows "length (selected args) \<le> 1"
proof -
  from assms obtain seen' where c: "consume e (default_namespace tok st) [] occs = (evs, Inr (args, seen'))"
    by (auto simp: parse_args_def split: prod.splits sum.splits if_splits)
  have "set (selected (default_namespace tok st)) \<subseteq> set []"
    by (simp add: selected_def default_namespace_def)
  from consume_invariant [OF c this, of Arg_get] obtain b where
    1: "set (selected args) \<subseteq> set seen'" and 2: "set seen' \<inter> set group_actions \<subseteq> {b}" by auto
  have "set (selected args) \<subseteq> set group_actions" by (auto simp: selected_def group_actions_def)
  with 1 2 have "set (selected args) \<subseteq> {b}" by blast
  then have "card (set (selected args)) \<le> 1"
    by (metis card_mono finite.emptyI finite_insert card_1_singleton_iff One_nat_def)
  with selected_distinct [of args] show ?thesis by (simp add: distinct_card)
qed


text \<open>
  Once an argument of the group has been seen, a later occurrence of another argument of
  the group ends the parse with an error.
\<close>

lemma consume_conflict:
  assumes "a \<in> set seen" "a \<in> set group_actions"
      and "occ \<in> set occs" "argument_of occ \<in> set group_actions" "argument_of occ \<noteq> a"
  shows "\<exists>evs err. consume e ns seen occs = (evs, Inl err)"
  using assms
proof (induction occs arbitrary: ns seen)
  case Nil
  then show ?case by simp
next
  case (Cons o1 occs)
  obtain evs1 r1 where t: "take_action e ns seen o1 = (evs1, r1)" by (cases "take_action e ns seen o1")
  show ?case
  proof (cases r1)
    case (Inl err)
    with t show ?thesis by simp
  next
    case (Inr s1)
    obtain ns1 seen1 where s1: "s1 = (ns1, seen1)" by (cases s1)
    from t Inr s1 have seen1: "seen1 = argument_of o1 # seen"
      and nc: "set (action_conflicts (argument_of o1)) \<inter> set seen = {}"
      by (auto simp: take_action_def split: if_splits prod.splits option.splits)
    have "o1 \<noteq> occ"
    proof
      assume "o1 = occ"
      with Cons.prems have "a \<in> set (action_conflicts (argument_of o1))"
        by (auto simp: action_conflicts_def)
      with nc Cons.prems(1) show False by auto
    qed
    with Cons.prems(3) have "occ \<in> set occs" by auto
    moreover from seen1 Cons.prems(1) have "a \<in> set seen1" by simp
    ultimately obtain evs2 err where "consume e ns1 seen1 occs = (evs2, Inl err)"
      using Cons.IH [of seen1 ns1] Cons.prems(2,4,5) by blast
    with t Inr s1 show ?thesis by simp
  qed
qed

lemma consume_two_actions:
  assumes "o1 \<in> set occs" "o2 \<in> set occs"
      and "argument_of o1 \<in> set group_actions" "argument_of o2 \<in> set group_actions"
      and "argument_of o1 \<noteq> argument_of o2"
  shows "\<exists>evs err. consume e ns seen occs = (evs, Inl err)"
  using assms(1,2)
proof (induction occs arbitrary: ns seen)
  case Nil
  then show ?case by simp
next
  case (Cons occ occs)
  obtain evs1 r1 where t: "take_action e ns seen occ = (evs1, r1)" by (cases "take_action e ns seen occ")
  show ?case
  proof (cases r1)
    case (Inl err)
    with t show ?thesis by simp
  next
    case (Inr s1)
    obtain ns1 seen1 where s1: "s1 = (ns1, seen1)" by (cases s1)
    from t Inr s1 have seen1: "seen1 = argument_of occ # seen"
      by (auto simp: take_action_def split: if_splits prod.splits option.splits)
    have "\<exists>evs2 err. consume e ns1 seen1 occs = (evs2, Inl err)"
    proof (cases "o1 \<in> set occs \<and> o2 \<in> set occs")
      case True
      then show ?thesis using Cons.IH by blast
    next
      case False
      with Cons.prems have "occ = o1 \<or> occ = o2" by auto
      then show ?thesis
      proof
        assume "occ = o1"
        with assms(5) Cons.prems(2) have "o2 \<in> set occs" by auto
        from consume_conflict [OF _ _ this assms(4), of "argument_of o1" seen1] seen1 \<open>occ = o1\<close> assms(3,5)
        show ?thesis by auto
      next
        assume "occ = o2"
        with assms(5) Cons.prems(1) have "o1 \<in> set occs" by auto
        from consume_conflict [OF _ _ this assms(3), of "argument_of o2" seen1] seen1 \<open>occ = o2\<close> assms(4,5)
        show ?thesis by auto
      qed
    qed
    with t Inr s1 show ?thesis by auto
  qed
qed

subsection \<open>The example environment\<close>

lemma example_fs_simps:
  "example_fs ''locked.json'' = Exists (Unreadable ''[Errno 13] Permission denied'')"
  \<open>example_fs ''./notice.json'' = Exists (Readable ''{"x":2}'')\<close>
  \<open>example_fs ''{"x":2}'' = Missing\<close>
  \<open>example_fs ''{"a":1}'' = Missing\<close>
  \<open>example_fs ''{}'' = Missing\<close>
  \<open>example_fs ''1'' = Exists (Readable ''2'')\<close>
  \<open>example_fs ''one.json'' = Exists (Readable ''1'')\<close>
  "example_fs ''logo.png'' = Exists (Undecodable ''invalid start byte'')"
  "example_fs (replicate 300 CHR ''x'') = Exists_raises ''[Errno 36] File name too long''"
  by code_simp+

lemma example_loads_simps:
  \<open>example_loads ''locked.json'' = JSONDecodeError\<close>
  \<open>example_loads ''{"x":2}'' = Loaded (JObj [(''x'', JInt 2)])\<close>
  \<open>example_loads ''{"a":1}'' = Loaded (JObj [(''a'', JInt 1)])\<close>
  \<open>example_loads ''{}'' = Loaded (JObj [])\<close>
  \<open>example_loads ''1'' = Loaded (JInt 1)\<close>
  \<open>example_loads ''2'' = Loaded (JInt 2)\<close>
  "example_loads (replicate 300 CHR ''x'') = JSONDecodeError"
  "example_loads ''logo.png'' = JSONDecodeError"
  by code_simp+

subsection \<open>The notices payload\<close>

text \<open>
  Claim C3, as amended. A string for which, taken as a path, \<^verbatim>\<open>path.exists()\<close> returns
  false and for which \<^verbatim>\<open>json.loads\<close> returns a value is normalized to exactly that value:
  it is stored as the payload, nothing is logged and nothing is raised. (A string for
  which \<^verbatim>\<open>path.exists()\<close> raises, or \<^verbatim>\<open>json.loads\<close> raises something other than
  \<^verbatim>\<open>JSONDecodeError\<close>, is not covered.)
\<close>

theorem literal_json_is_parsed_directly:
  assumes "fs e s = Missing" and "json_loads e s = Loaded v"
  shows "NoticesAction_call e ns (Str s) = ([], ns\<lparr>notices := v\<rparr>, None)"
  using assms by (simp add: NoticesAction_call_def)

text \<open>
  Witness for C3: in the example environment the text \<^verbatim>\<open>{"a":1}\<close> names no file and is
  normalized to the object it denotes.
\<close>

theorem literal_json_is_parsed_directly_witness:
  \<open>fs example_env ''{"a":1}'' = Missing
   \<and> json_loads example_env ''{"a":1}'' = Loaded (JObj [(''a'', JInt 1)])
   \<and> NoticesAction_call example_env (default_namespace None None) (Str ''{"a":1}'')
       = ([], (default_namespace None None)\<lparr>notices := JObj [(''a'', JInt 1)]\<rparr>, None)\<close>
proof -
  have 1: \<open>fs example_env ''{"a":1}'' = Missing\<close>
    by (simp add: example_env_def example_fs_simps)
  have 2: \<open>json_loads example_env ''{"a":1}'' = Loaded (JObj [(''a'', JInt 1)])\<close>
    by (simp add: example_env_def example_loads_simps)
  from literal_json_is_parsed_directly [OF 1 2, of "default_namespace None None"] 1 2
  show ?thesis by simp
qed

text \<open>
  Counterexample to C3 as stated: \<^verbatim>\<open>1\<close> is valid JSON text and parses to the number 1,
  but where a file named \<^verbatim>\<open>1\<close> exists the action reads the file first, and the payload
  is what the file holds (here 2).
\<close>

theorem json_named_like_a_file_counterexample:
  "json_loads example_env ''1'' = Loaded (JInt 1)
   \<and> NoticesAction_call example_env (default_namespace None None) (Str ''1'')
       = ([], (default_namespace None None)\<lparr>notices := JInt 2\<rparr>, None)
   \<and> NoticesAction_call example_env (default_namespace None None) (Str ''1'')
       \<noteq> ([], (default_namespace None None)\<lparr>notices := JInt 1\<rparr>, None)"
  by (simp add: NoticesAction_call_def example_env_def example_fs_simps example_loads_simps
        default_namespace_def)

text \<open>
  Two \<^verbatim>\<open>--create\<close> arguments that the action treats alike, whatever the namespace, can
  stand for one another anywhere on a command line.
\<close>

lemma consume_create_same:
  assumes "\<And>ns. NoticesAction_call e ns (Str a) = NoticesAction_call e ns (Str b)"
  shows "consume e ns seen (before @ Create_given a # rest)
           = consume e ns seen (before @ Create_given b # rest)"
proof (induction before arbitrary: ns seen)
  case Nil
  have "take_action e ns seen (Create_given a) = take_action e ns seen (Create_given b)"
    by (simp add: take_action_def assms split: prod.splits option.splits)
  then show ?case by simp
next
  case (Cons occ before)
  then show ?case by simp
qed

text \<open>
  Claim C4, as amended. For a path to a readable file whose text \<^verbatim>\<open>json.loads\<close> returns a
  value for, and for whose text, taken as a path, \<^verbatim>\<open>path.exists()\<close> returns false:
  normalizing the path and normalizing the text do the same (the payload is the parsed
  text), and a command line with \<^verbatim>\<open>--create path\<close> behaves as the same command line with
  \<^verbatim>\<open>--create text\<close> does. (A text for which \<^verbatim>\<open>path.exists()\<close> raises is not covered.)
\<close>

theorem file_is_read_as_its_contents:
  assumes "fs e path = Exists (Readable text)" and "fs e text = Missing"
      and "json_loads e text = Loaded v"
  shows "NoticesAction_call e ns (Str path) = NoticesAction_call e ns (Str text)
         \<and> NoticesAction_call e ns (Str path) = ([], ns\<lparr>notices := v\<rparr>, None)
         \<and> notices_command e tok st (before @ Create_given path # rest)
             = notices_command e tok st (before @ Create_given text # rest)"
proof -
  have same: "NoticesAction_call e ns' (Str path) = NoticesAction_call e ns' (Str text)" for ns'
    using assms by (simp add: NoticesAction_call_def)
  have "NoticesAction_call e ns (Str path) = ([], ns\<lparr>notices := v\<rparr>, None)"
    using assms by (simp add: NoticesAction_call_def)
  moreover have "notices_command e tok st (before @ Create_given path # rest)
             = notices_command e tok st (before @ Create_given text # rest)"
    using consume_create_same [OF same, of "default_namespace tok st" "[]" before rest]
    by (simp add: notices_command_def parse_args_def)
  ultimately show ?thesis using same by simp
qed

text \<open>
  Witness for C4: \<^verbatim>\<open>--label beta --create ./notice.json\<close>, the file holding
  \<^verbatim>\<open>{"x":2}\<close>, against \<^verbatim>\<open>--label beta --create '{"x":2}'\<close>.
\<close>

theorem file_is_read_as_its_contents_witness:
  \<open>fs example_env ''./notice.json'' = Exists (Readable ''{"x":2}'')
   \<and> fs example_env ''{"x":2}'' = Missing
   \<and> json_loads example_env ''{"x":2}'' = Loaded (JObj [(''x'', JInt 2)])
   \<and> NoticesAction_call example_env (default_namespace None None) (Str ''./notice.json'')
       = NoticesAction_call example_env (default_namespace None None) (Str ''{"x":2}'')
   \<and> NoticesAction_call example_env (default_namespace None None) (Str ''./notice.json'')
       = ([], (default_namespace None None)\<lparr>notices := JObj [(''x'', JInt 2)]\<rparr>, None)
   \<and> notices_command example_env None None
         ([Label_given ''beta''] @ Create_given ''./notice.json'' # [])
       = notices_command example_env None None
           ([Label_given ''beta''] @ Create_given ''{"x":2}'' # [])\<close>
proof -
  have 1: \<open>fs example_env ''./notice.json'' = Exists (Readable ''{"x":2}'')\<close>
    by (simp add: example_env_def example_fs_simps)
  have 2: \<open>fs example_env ''{"x":2}'' = Missing\<close>
    by (simp add: example_env_def example_fs_simps)
  have 3: \<open>json_loads example_env ''{"x":2}'' = Loaded (JObj [(''x'', JInt 2)])\<close>
    by (simp add: example_env_def example_loads_simps)
  note w = file_is_read_as_its_contents [OF 1 2 3, of "default_namespace None None" None None
      "[Label_given ''beta'']" "[]"]
  from 1 2 3 w show ?thesis by blast
qed

text \<open>
  Counterexample to C4 as stated: the file \<^verbatim>\<open>one.json\<close> holds the valid JSON text \<^verbatim>\<open>1\<close>,
  and a file named \<^verbatim>\<open>1\<close> exists. Normalizing the path gives 1; normalizing the file's
  literal contents reads the other file and gives 2.
\<close>

theorem file_contents_naming_a_file_counterexample:
  "fs example_env ''one.json'' = Exists (Readable ''1'')
   \<and> json_loads example_env ''1'' = Loaded (JInt 1)
   \<and> NoticesAction_call example_env (default_namespace None None) (Str ''one.json'')
       = ([], (default_namespace None None)\<lparr>notices := JInt 1\<rparr>, None)
   \<and> NoticesAction_call example_env (default_namespace None None) (Str ''1'')
       = ([], (default_namespace None None)\<lparr>notices := JInt 2\<rparr>, None)
   \<and> NoticesAction_call example_env (default_namespace None None) (Str ''one.json'')
       \<noteq> NoticesAction_call example_env (default_namespace None None) (Str ''1'')"
  by (simp add: NoticesAction_call_def example_env_def example_fs_simps example_loads_simps
        default_namespace_def)

text \<open>
  Where the failure is one the action catches (the path does not exist and the string is
  not JSON text, or the path exists and opening or reading it fails with an \<^verbatim>\<open>OSError\<close>),
  it logs one error record, leaves the namespace as it was and raises \<^verbatim>\<open>SystemExit(1)\<close>.
\<close>

lemma caught_failure_exits_1:
  assumes "(fs e s = Missing \<and> json_loads e s = JSONDecodeError)
           \<or> (\<exists>error. fs e s = Exists (Unreadable error))"
  shows "\<exists>message. NoticesAction_call e ns (Str s)
            = ([Log ERROR message], ns, Some (SystemExit 1))"
  using assms by (auto simp: NoticesAction_call_def)

text \<open>
  Claim C5. The string of 300 letters \<^verbatim>\<open>x\<close> is neither a path to a readable existing file
  nor JSON text, and \<^verbatim>\<open>path.exists()\<close> raises on it (the name is too long): the action
  leaves with that \<^verbatim>\<open>OSError\<close>, which nothing catches, with no error record logged and no
  \<^verbatim>\<open>SystemExit(1)\<close>. The same holds for \<^verbatim>\<open>logo.png\<close>, an existing file that is not text:
  \<^verbatim>\<open>read\<close> raises \<^verbatim>\<open>UnicodeDecodeError\<close>, which is not the \<^verbatim>\<open>OSError\<close> the action catches.
\<close>

theorem unusable_argument_leaves_uncaught:
  "fs example_env (replicate 300 CHR ''x'') = Exists_raises ''[Errno 36] File name too long''
   \<and> json_loads example_env (replicate 300 CHR ''x'') = JSONDecodeError
   \<and> NoticesAction_call example_env (default_namespace None None)
         (Str (replicate 300 CHR ''x''))
       = ([], default_namespace None None, Some (OSError ''[Errno 36] File name too long''))
   \<and> notices_command example_env None None [Create_given (replicate 300 CHR ''x'')]
       = ([], Some (OSError ''[Errno 36] File name too long''))
   \<and> fs example_env ''logo.png'' = Exists (Undecodable ''invalid start byte'')
   \<and> json_loads example_env ''logo.png'' = JSONDecodeError
   \<and> NoticesAction_call example_env (default_namespace None None) (Str ''logo.png'')
       = ([], default_namespace None None, Some (UnicodeDecodeError ''invalid start byte''))
   \<and> notices_command example_env None None [Create_given ''logo.png'']
       = ([], Some (UnicodeDecodeError ''invalid start byte''))"
  by (simp add: NoticesAction_call_def notices_command_def parse_args_def take_action_def
        action_conflicts_def example_env_def example_fs_simps example_loads_simps)

subsection \<open>The resolved account and the dispatch\<close>

text \<open>
  When the server check passes and an account is given or the caller's login is known,
  \<^verbatim>\<open>inner\<close> calls the handler with the API handle attached and that account.
\<close>

lemma user_update_same:
  "user args = Some u \<Longrightarrow> args\<lparr>api := x, user := Some u\<rparr> = args\<lparr>api := x\<rparr>"
  by (cases args) simp

lemma api_user_resolved:
  assumes "h = get_server_api e (token args) (site args) (get_config e (site args))"
      and "check_server h = None"
      and "user args = Some u \<or> (user args = None \<and> (\<exists>info. user_info h = Inr info \<and> info ''login'' = Some u))"
  shows "api_user func e args =
           after (if user args = None then [ApiCall CheckServer, ApiCall UserCall]
                  else [ApiCall CheckServer])
             (func (args\<lparr>api := Some h, user := Some u\<rparr>))"
proof (cases "user args")
  case None
  with assms show ?thesis by (auto simp: api_user_def Let_def)
next
  case (Some u')
  with assms(3) have u: "user args = Some u" by auto
  with assms(1,2) show ?thesis
    by (simp add: api_user_def Let_def user_update_same)
qed

lemma parse_args_get:
  assumes "parse_args e tok st occs = (evs, Inr args)" and "get args"
  shows "notices args = JNull \<and> \<not> remove args"
  using parse_args_at_most_one [OF assms(1)] assms(2)
  by (auto simp: selected_def split: if_splits)

lemma take_action_error:
  "take_action e ns seen occ = (evs, Inl err) \<Longrightarrow>
     err = SystemExit 2
     \<or> (\<exists>s. occ = Create_given s \<and> snd (snd (NoticesAction_call e ns (Str s))) = Some err)"
  by (cases occ) (auto simp: take_action_def split: if_splits prod.splits option.splits)

lemma consume_error:
  "consume e ns seen occs = (evs, Inl err) \<Longrightarrow>
     err = SystemExit 2
     \<or> (\<exists>s ns'. Create_given s \<in> set occs
            \<and> snd (snd (NoticesAction_call e ns' (Str s))) = Some err)"
proof (induction occs arbitrary: ns seen evs)
  case Nil
  then show ?case by simp
next
  case (Cons occ occs)
  obtain evs1 r1 where t: "take_action e ns seen occ = (evs1, r1)" by (cases "take_action e ns seen occ")
  show ?case
  proof (cases r1)
    case (Inl err1)
    with t Cons.prems have "err1 = err" by simp
    with t Inl take_action_error [of e ns seen occ evs1 err] show ?thesis by auto
  next
    case (Inr s1)
    obtain ns1 seen1 where s1: "s1 = (ns1, seen1)" by (cases s1)
    with t Inr Cons.prems have "snd (consume e ns1 seen1 occs) = Inl err"
      by (simp add: after_conv)
    then have "consume e ns1 seen1 occs = (fst (consume e ns1 seen1 occs), Inl err)"
      by (metis prod.collapse)
    from Cons.IH [OF this] show ?thesis by auto
  qed
qed

lemma example_env_simps:
  "fs example_env = example_fs" "json_loads example_env = example_loads"
  "float_repr example_env = (\<lambda>w. ''0.0'')"
  "get_config example_env = (\<lambda>st. [])"
  "get_server_api example_env tok None config = example_api"
  "get_server_api example_env tok (Some ''anon'') config = anonymous_api"
  by (simp_all add: example_env_def)

lemma example_api_simps:
  "check_server example_api = None"
  "user_info example_api = Inr [''login'' \<mapsto> ''alice'']"
  "create_notices example_api = (\<lambda>account label payload. None)"
  "remove_notices example_api = (\<lambda>account label. None)"
  "fetch_notices example_api = (\<lambda>account label. Inr (JObj [(''notices'', JArr [])]))"
  "check_server anonymous_api = None"
  "user_info anonymous_api = Inr Map.empty"
  by (simp_all add: example_api_def anonymous_api_def)

lemma example_parses:
  \<open>parse_args example_env None None [Create_given ''{"a":1}'', Label_given ''beta'']
     = ([], Inr ((default_namespace None None)\<lparr>label := ''beta'', notices := JObj [(''a'', JInt 1)]\<rparr>))\<close>
  \<open>parse_args example_env None None [Create_given ''{}'']
     = ([], Inr ((default_namespace None None)\<lparr>notices := JObj []\<rparr>))\<close>
  \<open>parse_args example_env None None [Get_given, Label_given ''main'']
     = ([], Inr ((default_namespace None None)\<lparr>label := ''main'', get := True\<rparr>))\<close>
  \<open>parse_args example_env None None [] = ([], Inr (default_namespace None None))\<close>
  by (simp_all add: parse_args_def take_action_def action_conflicts_def group_actions_def
        group_required_def NoticesAction_call_def example_env_simps example_fs_simps
        example_loads_simps default_namespace_def)

lemma dumps_no_notices:
  \<open>json_dumps fr 2 (JObj [(''notices'', JArr [])]) = ''{\<newline>  "notices": []\<newline>}''\<close>
  by (simp add: json_dumps_def newline_indent_def encode_basestring_ascii_def escape_char_def
        numeral_2_eq_2)

text \<open>
  Claim C1, as amended. An invocation whose command line parses, with a payload that is
  true in Python's sense (so \<^verbatim>\<open>--create\<close> was given and its argument normalized), and
  for which the server check passes and the account resolves to \<open>u\<close>: among the events
  of the invocation there is exactly one operation on notices, \<^verbatim>\<open>create_notices\<close> with
  the account \<open>u\<close>, the label and that payload, and the invocation ends as that call does.
\<close>

theorem create_calls_api_once:
  assumes "parse_args e tok st occs = (evs, Inr args)"
      and "truthy (notices args)"
      and "h = get_server_api e (token args) (site args) (get_config e (site args))"
      and "check_server h = None"
      and "user args = Some u
           \<or> (user args = None \<and> (\<exists>info. user_info h = Inr info \<and> info ''login'' = Some u))"
  shows "filter is_notices_op (fst (notices_command e tok st occs))
           = [ApiCall (CreateNotices (Some u) (label args) (notices args))]
         \<and> snd (notices_command e tok st occs)
           = create_notices h (Some u) (label args) (notices args)"
proof -
  from parse_args_events [OF assms(1)] have evs: "evs = []" .
  have "main e args =
          after (if user args = None then [ApiCall CheckServer, ApiCall UserCall]
                 else [ApiCall CheckServer])
            (main_body e (args\<lparr>api := Some h, user := Some u\<rparr>))"
    unfolding main_def by (rule api_user_resolved [OF assms(3,4,5)])
  moreover have "main_body e (args\<lparr>api := Some h, user := Some u\<rparr>)
      = ([ApiCall (CreateNotices (Some u) (label args) (notices args))],
         create_notices h (Some u) (label args) (notices args))"
    using assms(2) by (simp add: main_body_def)
  ultimately show ?thesis
    using assms(1) evs by (simp add: notices_command_def)
qed

text \<open>
  Witness for C1: \<^verbatim>\<open>--create '{"a":1}' --label beta\<close>, logged in as \<^verbatim>\<open>alice\<close>, calls
  \<^verbatim>\<open>create_notices\<close> once, with label \<^verbatim>\<open>beta\<close> and the payload \<^verbatim>\<open>{"a":1}\<close>.
\<close>

theorem create_calls_api_once_witness:
  \<open>parse_args example_env None None [Create_given ''{"a":1}'', Label_given ''beta'']
     = ([], Inr ((default_namespace None None)\<lparr>label := ''beta'', notices := JObj [(''a'', JInt 1)]\<rparr>))
   \<and> truthy (JObj [(''a'', JInt 1)])
   \<and> check_server example_api = None
   \<and> user_info example_api = Inr [''login'' \<mapsto> ''alice'']
   \<and> filter is_notices_op
        (fst (notices_command example_env None None [Create_given ''{"a":1}'', Label_given ''beta'']))
       = [ApiCall (CreateNotices (Some ''alice'') ''beta'' (JObj [(''a'', JInt 1)]))]
   \<and> snd (notices_command example_env None None [Create_given ''{"a":1}'', Label_given ''beta''])
       = None\<close>
proof -
  let ?args = \<open>(default_namespace None None)\<lparr>label := ''beta'', notices := JObj [(''a'', JInt 1)]\<rparr>\<close>
  have 1: \<open>parse_args example_env None None [Create_given ''{"a":1}'', Label_given ''beta'']
             = ([], Inr ?args)\<close>
    by (rule example_parses)
  have 2: "truthy (notices ?args)" by simp
  have 3: "example_api = get_server_api example_env (token ?args) (site ?args)
                           (get_config example_env (site ?args))"
    by (simp add: example_env_def default_namespace_def)
  have 4: "check_server example_api = None" by (simp add: example_api_simps)
  have 5: "user ?args = Some ''alice''
           \<or> (user ?args = None
               \<and> (\<exists>info. user_info example_api = Inr info \<and> info ''login'' = Some ''alice''))"
    by (simp add: example_api_simps default_namespace_def)
  from create_calls_api_once [OF 1 2 3 4 5] 1 4
  show ?thesis by (simp add: example_api_simps)
qed

text \<open>
  Counterexample to C1 as stated: \<^verbatim>\<open>--create '{}'\<close> is normalized to the empty object,
  and the invocation checks the server, resolves the user and calls nothing else.
\<close>

theorem empty_payload_counterexample:
  \<open>parse_args example_env None None [Create_given ''{}'']
     = ([], Inr ((default_namespace None None)\<lparr>notices := JObj []\<rparr>))
   \<and> notices_command example_env None None [Create_given ''{}'']
     = ([ApiCall CheckServer, ApiCall UserCall], None)
   \<and> filter is_notices_op (fst (notices_command example_env None None [Create_given ''{}''])) = []\<close>
  by (simp add: example_parses notices_command_def main_def api_user_def main_body_def
        example_env_simps example_api_simps default_namespace_def)

text \<open>
  Claim C2. When the payload is false in Python's sense and neither flag is set, the body
  of \<^verbatim>\<open>main\<close> causes no event and returns; the decorated \<^verbatim>\<open>main\<close> calls none of the three
  operations on notices, and what it does is the decorator's: the server check, the
  identity query, and the error record when no owner is found.
\<close>

theorem falsy_payload_calls_nothing:
  assumes "\<not> truthy (notices args)" and "\<not> remove args" and "\<not> get args"
  shows "main_body e args = ([], None)
         \<and> filter is_notices_op (fst (main e args)) = []
         \<and> set (fst (main e args))
             \<subseteq> {ApiCall CheckServer, ApiCall UserCall, Log ERROR owner_message}"
proof -
  have body: "main_body e a = ([], None)"
    if "notices a = notices args" "remove a = remove args" "get a = get args" for a
    using that assms by (simp add: main_body_def)
  have 1: "main_body e args = ([], None)" by (rule body) simp_all
  have 2: "main_body e (args\<lparr>api := x\<rparr>) = ([], None)" for x by (rule body) simp_all
  have 3: "main_body e (args\<lparr>api := x, user := y\<rparr>) = ([], None)" for x y
    by (rule body) simp_all
  have 4: "fst (main e args) = [ApiCall CheckServer]
           \<or> fst (main e args) = [ApiCall CheckServer, ApiCall UserCall]
           \<or> fst (main e args) = [ApiCall CheckServer, ApiCall UserCall, Log ERROR owner_message]"
    by (simp add: main_def api_user_def Let_def 2 3 split: option.splits sum.splits)
  from 4 have "filter is_notices_op (fst (main e args)) = []" by auto
  moreover from 4 have "set (fst (main e args))
             \<subseteq> {ApiCall CheckServer, ApiCall UserCall, Log ERROR owner_message}" by auto
  ultimately show ?thesis using 1 by simp
qed

text \<open>
  Witness for C2: the namespace that \<^verbatim>\<open>--create '{}'\<close> parses to; the empty object, the
  empty array, 0, \<^verbatim>\<open>None\<close> and \<^verbatim>\<open>False\<close> are all false.
\<close>

theorem falsy_payload_calls_nothing_witness:
  \<open>parse_args example_env None None [Create_given ''{}'']
     = ([], Inr ((default_namespace None None)\<lparr>notices := JObj []\<rparr>))
   \<and> \<not> truthy (JObj []) \<and> \<not> truthy (JArr []) \<and> \<not> truthy (JInt 0) \<and> \<not> truthy JNull
   \<and> \<not> truthy (JBool False)
   \<and> main_body example_env ((default_namespace None None)\<lparr>notices := JObj []\<rparr>) = ([], None)
   \<and> filter is_notices_op
        (fst (main example_env ((default_namespace None None)\<lparr>notices := JObj []\<rparr>))) = []\<close>
proof -
  let ?args = "(default_namespace None None)\<lparr>notices := JObj []\<rparr>"
  have 1: "\<not> truthy (notices ?args)" by simp
  have 2: "\<not> remove ?args" by (simp add: default_namespace_def)
  have 3: "\<not> get ?args" by (simp add: default_namespace_def)
  from falsy_payload_calls_nothing [OF 1 2 3, of example_env]
  show ?thesis by (simp add: example_parses)
qed

text \<open>
  Claim C6, as amended. At most one of \<^verbatim>\<open>--create\<close>, \<^verbatim>\<open>--remove\<close>, \<^verbatim>\<open>--get\<close> is selected
  per invocation: a command line with occurrences of two different ones is rejected by
  the parser (with argparse's usage error, exit status 2, or with what the action of a
  \<^verbatim>\<open>--create\<close> on the line raised first) with no API call, so before the handler runs; a namespace that parsing returns shows at
  most one of them; and the command line with none of them is accepted, with none
  selected.
\<close>

theorem conflicting_actions_rejected:
  "(o1 \<in> set occs \<and> o2 \<in> set occs
      \<and> argument_of o1 \<in> set group_actions \<and> argument_of o2 \<in> set group_actions
      \<and> argument_of o1 \<noteq> argument_of o2
    \<longrightarrow> (\<exists>evs err. parse_args e tok st occs = (evs, Inl err)
            \<and> (err = SystemExit 2
                \<or> (\<exists>s ns. Create_given s \<in> set occs
                       \<and> snd (snd (NoticesAction_call e ns (Str s))) = Some err))
            \<and> notices_command e tok st occs = (evs, Some err)
            \<and> filter is_api_call evs = []))
   \<and> (parse_args e tok st occs = (evs', Inr args) \<longrightarrow> length (selected args) \<le> 1)
   \<and> parse_args e tok st [] = ([], Inr (default_namespace tok st))
   \<and> selected (default_namespace tok st) = []"
proof (intro conjI impI)
  assume a: "o1 \<in> set occs \<and> o2 \<in> set occs
      \<and> argument_of o1 \<in> set group_actions \<and> argument_of o2 \<in> set group_actions
      \<and> argument_of o1 \<noteq> argument_of o2"
  then obtain evs err where c: "consume e (default_namespace tok st) [] occs = (evs, Inl err)"
    using consume_two_actions [of o1 occs o2 e "default_namespace tok st" "[]"] by blast
  then have p: "parse_args e tok st occs = (evs, Inl err)" by (simp add: parse_args_def)
  moreover from consume_error [OF c] have "err = SystemExit 2
                \<or> (\<exists>s ns. Create_given s \<in> set occs
                       \<and> snd (snd (NoticesAction_call e ns (Str s))) = Some err)" .
  moreover from p have "notices_command e tok st occs = (evs, Some err)"
    by (simp add: notices_command_def)
  moreover from consume_no_api_call [OF c] have "filter is_api_call evs = []" .
  ultimately show "\<exists>evs err. parse_args e tok st occs = (evs, Inl err)
            \<and> (err = SystemExit 2
                \<or> (\<exists>s ns. Create_given s \<in> set occs
                       \<and> snd (snd (NoticesAction_call e ns (Str s))) = Some err))
            \<and> notices_command e tok st occs = (evs, Some err)
            \<and> filter is_api_call evs = []" by blast
next
  assume "parse_args e tok st occs = (evs', Inr args)"
  then show "length (selected args) \<le> 1" by (rule parse_args_at_most_one)
next
  show "parse_args e tok st [] = ([], Inr (default_namespace tok st))"
    by (simp add: parse_args_def group_required_def)
next
  show "selected (default_namespace tok st) = []"
    by (simp add: selected_def default_namespace_def)
qed

text \<open>
  Witness for C6: \<^verbatim>\<open>--get --remove\<close> is rejected with status 2, and \<^verbatim>\<open>--get\<close> alone
  parses to a namespace with one action selected.
\<close>

theorem conflicting_actions_rejected_witness:
  "Get_given \<in> set [Get_given, Remove_given] \<and> Remove_given \<in> set [Get_given, Remove_given]
   \<and> argument_of Get_given \<in> set group_actions \<and> argument_of Remove_given \<in> set group_actions
   \<and> argument_of Get_given \<noteq> argument_of Remove_given
   \<and> notices_command example_env None None [Get_given, Remove_given] = ([], Some (SystemExit 2))
   \<and> parse_args example_env None None [Get_given]
       = ([], Inr ((default_namespace None None)\<lparr>get := True\<rparr>))
   \<and> length (selected ((default_namespace None None)\<lparr>get := True\<rparr>)) \<le> 1"
proof -
  have 1: "Get_given \<in> set [Get_given, Remove_given] \<and> Remove_given \<in> set [Get_given, Remove_given]
   \<and> argument_of Get_given \<in> set group_actions \<and> argument_of Remove_given \<in> set group_actions
   \<and> argument_of Get_given \<noteq> argument_of Remove_given"
    by (simp add: group_actions_def)
  have 2: "parse_args example_env None None [Get_given]
       = ([], Inr ((default_namespace None None)\<lparr>get := True\<rparr>))"
    by (simp add: parse_args_def take_action_def action_conflicts_def group_actions_def
        group_required_def)
  have 3: "notices_command example_env None None [Get_given, Remove_given] = ([], Some (SystemExit 2))"
    by (simp add: notices_command_def parse_args_def take_action_def action_conflicts_def
        group_actions_def group_required_def)
  from conflicting_actions_rejected [of Get_given "[Get_given, Remove_given]" Remove_given
      example_env None None]
    conflicting_actions_rejected [of Get_given "[Get_given]" Remove_given
      example_env None None "[]" "(default_namespace None None)\<lparr>get := True\<rparr>"]
    1 2 3
  show ?thesis by blast
qed

text \<open>
  Counterexample to C6 as stated: the command line without any of the three options
  parses, with no action selected, and the invocation ends normally.
\<close>

theorem no_action_counterexample:
  "parse_args example_env None None [] = ([], Inr (default_namespace None None))
   \<and> selected (default_namespace None None) = []
   \<and> length (selected (default_namespace None None)) \<noteq> 1
   \<and> notices_command example_env None None [] = ([ApiCall CheckServer, ApiCall UserCall], None)"
  by (simp add: example_parses notices_command_def main_def api_user_def main_body_def
        example_env_simps example_api_simps default_namespace_def selected_def)

text \<open>
  Claim C7. When no account is given, the server check passes and the identity query
  returns a dict without a login, \<^verbatim>\<open>inner\<close> ends with the \<^verbatim>\<open>BinstarError\<close> after logging
  its message, whatever the handler is: the handler is not run, and the only API calls
  are the check and the query. And in every case, either \<^verbatim>\<open>inner\<close> fails without running
  the handler, or it runs the handler on a namespace that has an account and an API
  handle.
\<close>

theorem unresolved_owner_fails_before_handler:
  "(user args = None
      \<and> check_server (get_server_api e (token args) (site args) (get_config e (site args))) = None
      \<and> user_info (get_server_api e (token args) (site args) (get_config e (site args))) = Inr info
      \<and> info ''login'' = None
    \<longrightarrow> (\<forall>func. api_user func e args
                  = ([ApiCall CheckServer, ApiCall UserCall, Log ERROR owner_message],
                     Some (BinstarError owner_message))))
   \<and> ((\<exists>evs err. \<forall>func. api_user func e args = (evs, Some err))
       \<or> (\<exists>evs args'. (\<exists>account. user args' = Some account) \<and> (\<exists>h. api args' = Some h)
             \<and> (\<forall>func. api_user func e args = after evs (func args'))))"
proof (intro conjI impI allI)
  fix func
  assume "user args = None
      \<and> check_server (get_server_api e (token args) (site args) (get_config e (site args))) = None
      \<and> user_info (get_server_api e (token args) (site args) (get_config e (site args))) = Inr info
      \<and> info ''login'' = None"
  then show "api_user func e args
                  = ([ApiCall CheckServer, ApiCall UserCall, Log ERROR owner_message],
                     Some (BinstarError owner_message))"
    by (simp add: api_user_def Let_def)
next
  let ?h = "get_server_api e (token args) (site args) (get_config e (site args))"
  let ?A = "\<exists>evs err. \<forall>func. api_user func e args = (evs, Some err)"
  let ?B = "\<exists>evs args'. (\<exists>account. user args' = Some account) \<and> (\<exists>h. api args' = Some h)
             \<and> (\<forall>func. api_user func e args = after evs (func args'))"
  show "?A \<or> ?B"
  proof (cases "check_server ?h")
    case (Some err)
    then have "\<forall>func. api_user func e args = ([ApiCall CheckServer], Some err)"
      by (simp add: api_user_def Let_def)
    then show ?thesis by blast
  next
    case None
    show ?thesis
    proof (cases "user args")
      case (Some u)
      with None have "\<forall>func. api_user func e args
          = after [ApiCall CheckServer] (func (args\<lparr>api := Some ?h\<rparr>))"
        by (simp add: api_user_def Let_def)
      moreover from Some have "\<exists>account. user (args\<lparr>api := Some ?h\<rparr>) = Some account" by simp
      moreover have "\<exists>h. api (args\<lparr>api := Some ?h\<rparr>) = Some h" by simp
      ultimately have ?B by blast
      then show ?thesis ..
    next
      case noUser: None
      show ?thesis
      proof (cases "user_info ?h")
        case (Inl err)
        with None noUser have "\<forall>func. api_user func e args
            = ([ApiCall CheckServer, ApiCall UserCall], Some err)"
          by (simp add: api_user_def Let_def)
        then show ?thesis by blast
      next
        case (Inr d)
        show ?thesis
        proof (cases "d ''login''")
          case noLogin: None
          with None noUser Inr have "\<forall>func. api_user func e args
              = ([ApiCall CheckServer, ApiCall UserCall, Log ERROR owner_message],
                 Some (BinstarError owner_message))"
            by (simp add: api_user_def Let_def)
          then show ?thesis by blast
        next
          case (Some u)
          with None noUser Inr have "\<forall>func. api_user func e args
              = after [ApiCall CheckServer, ApiCall UserCall]
                  (func (args\<lparr>api := Some ?h, user := Some u\<rparr>))"
            by (simp add: api_user_def Let_def)
          moreover have "\<exists>account. user (args\<lparr>api := Some ?h, user := Some u\<rparr>) = Some account"
            by simp
          moreover have "\<exists>h. api (args\<lparr>api := Some ?h, user := Some u\<rparr>) = Some h" by simp
          ultimately have ?B by blast
          then show ?thesis ..
        qed
      qed
    qed
  qed
qed

text \<open>
  Witness for C7: the site whose handle knows no login, with \<^verbatim>\<open>--remove\<close>.
\<close>

theorem unresolved_owner_fails_before_handler_witness:
  "user (default_namespace None (Some ''anon'')) = None
   \<and> check_server anonymous_api = None
   \<and> user_info anonymous_api = Inr Map.empty
   \<and> (Map.empty :: string \<rightharpoonup> string) ''login'' = None
   \<and> main example_env (default_namespace None (Some ''anon''))
       = ([ApiCall CheckServer, ApiCall UserCall, Log ERROR owner_message],
          Some (BinstarError owner_message))
   \<and> notices_command example_env None (Some ''anon'') [Remove_given]
       = ([ApiCall CheckServer, ApiCall UserCall, Log ERROR owner_message],
          Some (BinstarError owner_message))"
proof -
  let ?args = "default_namespace None (Some ''anon'')"
  let ?args' = "(default_namespace None (Some ''anon''))\<lparr>remove := True\<rparr>"
  have h: "get_server_api example_env (token ?args) (site ?args) (get_config example_env (site ?args))
        = anonymous_api"
    by (simp add: example_env_def default_namespace_def)
  have h': "get_server_api example_env (token ?args') (site ?args') (get_config example_env (site ?args'))
        = anonymous_api"
    by (simp add: example_env_def default_namespace_def)
  have 1: "user ?args = None \<and> check_server anonymous_api = None
            \<and> user_info anonymous_api = Inr Map.empty
            \<and> (Map.empty :: string \<rightharpoonup> string) ''login'' = None"
    by (simp add: default_namespace_def example_api_simps)
  have n1: "user ?args' = None" by (simp add: default_namespace_def)
  have p: "parse_args example_env None (Some ''anon'') [Remove_given] = ([], Inr ?args')"
    by (simp add: parse_args_def take_action_def action_conflicts_def group_actions_def
        group_required_def)
  from unresolved_owner_fails_before_handler [of ?args example_env Map.empty] h 1
  have a: "main example_env ?args
       = ([ApiCall CheckServer, ApiCall UserCall, Log ERROR owner_message],
          Some (BinstarError owner_message))"
    unfolding main_def by simp
  from unresolved_owner_fails_before_handler [of ?args' example_env Map.empty] h' 1 n1
  have "main example_env ?args'
       = ([ApiCall CheckServer, ApiCall UserCall, Log ERROR owner_message],
          Some (BinstarError owner_message))"
    unfolding main_def by simp
  with p have b: "notices_command example_env None (Some ''anon'') [Remove_given]
       = ([ApiCall CheckServer, ApiCall UserCall, Log ERROR owner_message],
          Some (BinstarError owner_message))"
    by (simp add: notices_command_def)
  from 1 a b show ?thesis by blast
qed

text \<open>
  Claim C8. An invocation whose command line parses with \<^verbatim>\<open>--get\<close> set, for which the
  server check passes, the account resolves to \<open>u\<close> and \<^verbatim>\<open>notices(u, label)\<close> returns
  \<open>result\<close>: the events are the decorator's calls, the fetch for that account and label,
  and one \<open>INFO\<close> record holding \<^verbatim>\<open>json.dumps(result, indent=2)\<close>; the status is 0.
\<close>

theorem get_prints_indented_json:
  assumes "parse_args e tok st occs = (evs, Inr args)"
      and "get args"
      and "h = get_server_api e (token args) (site args) (get_config e (site args))"
      and "check_server h = None"
      and "user args = Some u
           \<or> (user args = None \<and> (\<exists>info. user_info h = Inr info \<and> info ''login'' = Some u))"
      and "fetch_notices h (Some u) (label args) = Inr result"
  shows "notices_command e tok st occs
           = ((if user args = None then [ApiCall CheckServer, ApiCall UserCall]
               else [ApiCall CheckServer])
              @ [ApiCall (FetchNotices (Some u) (label args)),
                 Log INFO (json_dumps (float_repr e) 2 result)],
              None)
         \<and> exit_status (snd (notices_command e tok st occs)) = 0"
proof -
  from parse_args_events [OF assms(1)] have evs: "evs = []" .
  from parse_args_get [OF assms(1,2)] have sel: "notices args = JNull" "\<not> remove args" by simp_all
  have "main e args =
          after (if user args = None then [ApiCall CheckServer, ApiCall UserCall]
                 else [ApiCall CheckServer])
            (main_body e (args\<lparr>api := Some h, user := Some u\<rparr>))"
    unfolding main_def by (rule api_user_resolved [OF assms(3,4,5)])
  moreover have "main_body e (args\<lparr>api := Some h, user := Some u\<rparr>)
      = ([ApiCall (FetchNotices (Some u) (label args)),
          Log INFO (json_dumps (float_repr e) 2 result)], None)"
    using sel assms(2,6) by (simp add: main_body_def)
  ultimately show ?thesis
    using assms(1) evs by (simp add: notices_command_def)
qed

text \<open>
  Witness for C8: \<^verbatim>\<open>--get --label main\<close> with the API returning \<^verbatim>\<open>{"notices":[]}\<close>
  logs the three lines \<^verbatim>\<open>{\<close>, \<^verbatim>\<open>  "notices": []\<close>, \<^verbatim>\<open>}\<close> and exits 0.
\<close>

theorem get_prints_indented_json_witness:
  \<open>parse_args example_env None None [Get_given, Label_given ''main'']
     = ([], Inr ((default_namespace None None)\<lparr>label := ''main'', get := True\<rparr>))
   \<and> check_server example_api = None
   \<and> user_info example_api = Inr [''login'' \<mapsto> ''alice'']
   \<and> fetch_notices example_api (Some ''alice'') ''main'' = Inr (JObj [(''notices'', JArr [])])
   \<and> notices_command example_env None None [Get_given, Label_given ''main'']
       = ([ApiCall CheckServer, ApiCall UserCall, ApiCall (FetchNotices (Some ''alice'') ''main''),
           Log INFO ''{\<newline>  "notices": []\<newline>}''], None)
   \<and> exit_status (snd (notices_command example_env None None [Get_given, Label_given ''main''])) = 0\<close>
proof -
  let ?args = \<open>(default_namespace None None)\<lparr>label := ''main'', get := True\<rparr>\<close>
  have 1: \<open>parse_args example_env None None [Get_given, Label_given ''main''] = ([], Inr ?args)\<close>
    by (rule example_parses)
  have 2: "get ?args" by simp
  have 3: "example_api = get_server_api example_env (token ?args) (site ?args)
                           (get_config example_env (site ?args))"
    by (simp add: example_env_def default_namespace_def)
  have 4: "check_server example_api = None" by (simp add: example_api_simps)
  have 5: "user ?args = Some ''alice''
           \<or> (user ?args = None
               \<and> (\<exists>info. user_info example_api = Inr info \<and> info ''login'' = Some ''alice''))"
    by (simp add: example_api_simps default_namespace_def)
  have 6: "fetch_notices example_api (Some ''alice'') (label ?args) = Inr (JObj [(''notices'', JArr [])])"
    by (simp add: example_api_simps)
  from get_prints_indented_json [OF 1 2 3 4 5 6] 1 4 6
  show ?thesis
    by (simp add: example_api_simps example_env_simps dumps_no_notices default_namespace_def)
qed

subsection \<open>The legacy passthrough\<close>

text \<open>
  Claim C9. The passthrough hands the legacy dispatcher \<^verbatim>\<open>sys.argv[1:]\<close> without every
  element equal to \<^verbatim>\<open>org\<close>, not only the nesting keyword: for
  \<^verbatim>\<open>anaconda org upload --user org pkg.tar.bz2\<close> the dispatcher is called with
  \<^verbatim>\<open>upload --user pkg.tar.bz2\<close>, the value of \<^verbatim>\<open>--user\<close> gone.
\<close>

theorem subcommand_drops_every_org:
  "subcommand p [''anaconda'', ''org'', ''upload'', ''--user'', ''org'', ''pkg.tar.bz2'']
     = binstar_main p [''upload'', ''--user'', ''pkg.tar.bz2''] False"
  by (simp add: subcommand_def)

text \<open>
  Mounting a subcommand changes what the applications hold under its name only. A
  subcommand that is not mounted in its new form is mounted as the passthrough, wrapped
  by \<^verbatim>\<open>_deprecate\<close> when it is deprecated.
\<close>

lemma mount_subcommand_other:
  "n \<noteq> name \<Longrightarrow>
     app (mount_subcommand p n help_text d m hid st) name = app st name
     \<and> main_app (mount_subcommand p n help_text d m hid st) name = main_app st name"
  by (simp add: mount_subcommand_def load_new_subcommand_def Let_def)

lemma fold_mount_other:
  "name \<notin> set names \<Longrightarrow>
     app (fold (\<lambda>n. mount_subcommand p n (hf n) (df n) (mf n) (hidf n)) names st) name = app st name
     \<and> main_app (fold (\<lambda>n. mount_subcommand p n (hf n) (df n) (mf n) (hidf n)) names st) name
         = main_app st name"
proof (induction names arbitrary: st)
  case Nil
  then show ?case by simp
next
  case (Cons n names)
  then have "n \<noteq> name" and "name \<notin> set names" by auto
  with Cons.IH [of "mount_subcommand p n (hf n) (df n) (mf n) (hidf n) st"]
    mount_subcommand_other [of n name p "hf n" "df n" "mf n" "hidf n" st]
  show ?case by simp
qed

lemma mount_subcommand_legacy:
  assumes "\<not> (getenv_flag p ''ANACONDA_CLI_FORCE_NEW'' \<and> name \<in> SUBCOMMANDS_WITH_NEW_CLI)"
  shows "invoke (app (mount_subcommand p name help_text d m hid st)) name sys_argv
           = Some ((if d then deprecate name (subcommand p) else subcommand p) sys_argv)"
    and "m \<Longrightarrow> invoke (main_app (mount_subcommand p name help_text d m hid st)) name sys_argv
           = Some ((if d then deprecate name (subcommand p) else subcommand p) sys_argv)"
  using assms by (auto simp: mount_subcommand_def Let_def invoke_def)

lemma deprecated_not_new: "name \<in> DEPRECATED_SUBCOMMANDS \<Longrightarrow> name \<notin> SUBCOMMANDS_WITH_NEW_CLI"
  by (auto simp: DEPRECATED_SUBCOMMANDS_def SUBCOMMANDS_WITH_NEW_CLI_def)

lemma load_legacy_notebook:
  assumes "\<not> getenv_flag p ''ANACONDA_CLIENT_FORCE_STANDALONE''"
      and "iteration_of ALL_SUBCOMMANDS names"
  shows "invoke (app (load_legacy_subcommands p names st)) ''notebook'' sys_argv
           = Some (deprecate ''notebook'' (subcommand p) sys_argv)"
    and "invoke (main_app (load_legacy_subcommands p names st)) ''notebook'' sys_argv
           = Some (deprecate ''notebook'' (subcommand p) sys_argv)"
proof -
  let ?f = "\<lambda>name. mount_subcommand p name (get_help_text p name)
                    (name \<in> DEPRECATED_SUBCOMMANDS)
                    (name \<notin> {''login'', ''logout'', ''whoami''})
                    (name \<notin> NON_HIDDEN_SUBCOMMANDS)"
  from assms(2) have "''notebook'' \<in> set names" and dist: "distinct names"
    by (simp_all add: iteration_of_def ALL_SUBCOMMANDS_def)
  then obtain pre post where names: "names = pre @ ''notebook'' # post"
    by (auto dest: split_list)
  with dist have n: "''notebook'' \<notin> set post" by simp
  let ?st1 = "fold ?f pre st"
  let ?st2 = "?f ''notebook'' ?st1"
  have l: "load_legacy_subcommands p names st = fold ?f post ?st2"
    using assms(1) names by (simp add: load_legacy_subcommands_def)
  have nn: "\<not> (getenv_flag p ''ANACONDA_CLI_FORCE_NEW'' \<and> ''notebook'' \<in> SUBCOMMANDS_WITH_NEW_CLI)"
    by (simp add: SUBCOMMANDS_WITH_NEW_CLI_def)
  from fold_mount_other [OF n, of p "get_help_text p" "\<lambda>name. name \<in> DEPRECATED_SUBCOMMANDS"
      "\<lambda>name. name \<notin> {''login'', ''logout'', ''whoami''}" "\<lambda>name. name \<notin> NON_HIDDEN_SUBCOMMANDS" ?st2]
  have a: "app (fold ?f post ?st2) ''notebook'' = app ?st2 ''notebook''"
    and b: "main_app (fold ?f post ?st2) ''notebook'' = main_app ?st2 ''notebook''"
    by blast+
  from mount_subcommand_legacy(1) [OF nn, of "get_help_text p ''notebook''" True True True ?st1 sys_argv]
  have "invoke (app ?st2) ''notebook'' sys_argv = Some (deprecate ''notebook'' (subcommand p) sys_argv)"
    by (simp add: DEPRECATED_SUBCOMMANDS_def NON_HIDDEN_SUBCOMMANDS_def)
  with a l show "invoke (app (load_legacy_subcommands p names st)) ''notebook'' sys_argv
           = Some (deprecate ''notebook'' (subcommand p) sys_argv)"
    by (simp add: invoke_def)
  from mount_subcommand_legacy(2) [OF nn, of True "get_help_text p ''notebook''" True True ?st1 sys_argv]
  have "invoke (main_app ?st2) ''notebook'' sys_argv = Some (deprecate ''notebook'' (subcommand p) sys_argv)"
    by (simp add: DEPRECATED_SUBCOMMANDS_def NON_HIDDEN_SUBCOMMANDS_def)
  with b l show "invoke (main_app (load_legacy_subcommands p names st)) ''notebook'' sys_argv
           = Some (deprecate ''notebook'' (subcommand p) sys_argv)"
    by (simp add: invoke_def)
qed

text \<open>
  Claim C10. For a name in the deprecated set, whatever the environment flag for the new
  CLI says: the handler that \<^verbatim>\<open>_mount_subcommand\<close> mounts under \<^verbatim>\<open>anaconda org\<close> (and at
  the top level when asked to), and the handler found there after
  \<^verbatim>\<open>load_legacy_subcommands\<close> (in whatever order it visits the names, unless the
  standalone flag is set), logs one warning and then does what the passthrough
  does, which is also what a subcommand mounted without deprecation does; the exception
  it ends with, if any, is the passthrough's own; and the warning ends with
  \<^verbatim>\<open>"anaconda org <name> ..."\<close>.
\<close>

theorem deprecated_handler_warns_then_delegates:
  assumes "name \<in> DEPRECATED_SUBCOMMANDS"
  shows \<open>invoke (app (mount_subcommand p name help_text True mount_to_main hidden st)) name sys_argv
           = Some (after [Log WARNING (deprecation_message name)] (subcommand p sys_argv))
         \<and> (mount_to_main \<longrightarrow>
              invoke (main_app (mount_subcommand p name help_text True mount_to_main hidden st))
                name sys_argv
                = Some (after [Log WARNING (deprecation_message name)] (subcommand p sys_argv)))
         \<and> (\<not> getenv_flag p ''ANACONDA_CLIENT_FORCE_STANDALONE''
              \<and> iteration_of ALL_SUBCOMMANDS names \<longrightarrow>
              invoke (app (load_legacy_subcommands p names st)) name sys_argv
                = Some (after [Log WARNING (deprecation_message name)] (subcommand p sys_argv))
              \<and> invoke (main_app (load_legacy_subcommands p names st)) name sys_argv
                = Some (after [Log WARNING (deprecation_message name)] (subcommand p sys_argv)))
         \<and> (\<not> (getenv_flag p ''ANACONDA_CLI_FORCE_NEW'' \<and> other \<in> SUBCOMMANDS_WITH_NEW_CLI) \<longrightarrow>
              invoke (app (mount_subcommand p other help_text False mount_to_main hidden st))
                other sys_argv
                = Some (subcommand p sys_argv))
         \<and> snd (after [Log WARNING (deprecation_message name)] (subcommand p sys_argv))
             = snd (subcommand p sys_argv)
         \<and> fst (after [Log WARNING (deprecation_message name)] (subcommand p sys_argv))
             = Log WARNING (deprecation_message name) # fst (subcommand p sys_argv)
         \<and> (\<exists>before. deprecation_message name = before @ ''"anaconda org '' @ name @ '' ..."'')\<close>
proof -
  from assms have nb: "name = ''notebook''" by (simp add: DEPRECATED_SUBCOMMANDS_def)
  from deprecated_not_new [OF assms]
  have nn: "\<not> (getenv_flag p ''ANACONDA_CLI_FORCE_NEW'' \<and> name \<in> SUBCOMMANDS_WITH_NEW_CLI)" by simp
  have 1: "invoke (app (mount_subcommand p name help_text True mount_to_main hidden st)) name sys_argv
           = Some (after [Log WARNING (deprecation_message name)] (subcommand p sys_argv))"
    using mount_subcommand_legacy(1) [OF nn, of help_text True mount_to_main hidden st sys_argv]
    by (simp add: deprecate_def)
  have 2: "mount_to_main \<longrightarrow>
              invoke (main_app (mount_subcommand p name help_text True mount_to_main hidden st))
                name sys_argv
                = Some (after [Log WARNING (deprecation_message name)] (subcommand p sys_argv))"
    using mount_subcommand_legacy(2) [OF nn, of mount_to_main help_text True hidden st sys_argv]
    by (simp add: deprecate_def)
  have 3: "\<not> getenv_flag p ''ANACONDA_CLIENT_FORCE_STANDALONE''
              \<and> iteration_of ALL_SUBCOMMANDS names \<longrightarrow>
              invoke (app (load_legacy_subcommands p names st)) name sys_argv
                = Some (after [Log WARNING (deprecation_message name)] (subcommand p sys_argv))
              \<and> invoke (main_app (load_legacy_subcommands p names st)) name sys_argv
                = Some (after [Log WARNING (deprecation_message name)] (subcommand p sys_argv))"
    using load_legacy_notebook [of p names st sys_argv] nb by (simp add: deprecate_def)
  have 4: "snd (after [Log WARNING (deprecation_message name)] (subcommand p sys_argv))
             = snd (subcommand p sys_argv)"
    and 5: "fst (after [Log WARNING (deprecation_message name)] (subcommand p sys_argv))
             = Log WARNING (deprecation_message name) # fst (subcommand p sys_argv)"
    by (simp_all add: after_conv)
  have 6: \<open>\<exists>before. deprecation_message name = before @ ''"anaconda org '' @ name @ '' ..."''\<close>
    by (rule exI [of _
          \<open>''The existing anaconda-client commands will be deprecated. To maintain compatibility, ''
           @ ''please either pin `anaconda-client<2` or update your system call with the `org` prefix, ''
           @ ''e.g. ''\<close>])
       (simp add: deprecation_message_def)
  have 7: "\<not> (getenv_flag p ''ANACONDA_CLI_FORCE_NEW'' \<and> other \<in> SUBCOMMANDS_WITH_NEW_CLI) \<longrightarrow>
              invoke (app (mount_subcommand p other help_text False mount_to_main hidden st))
                other sys_argv
                = Some (subcommand p sys_argv)"
    using mount_subcommand_legacy(1) [of p other help_text False mount_to_main hidden st sys_argv]
    by simp
  from 1 2 3 4 5 6 7 show ?thesis by blast
qed

text \<open>
  Witness for C10: \<^verbatim>\<open>anaconda notebook upload nb.ipynb\<close> after loading the legacy
  subcommands: the warning, then the dispatcher's records of the arguments it was given.
\<close>

theorem deprecated_handler_warns_then_delegates_witness:
  \<open>''notebook'' \<in> DEPRECATED_SUBCOMMANDS
   \<and> \<not> getenv_flag example_plugin_env ''ANACONDA_CLIENT_FORCE_STANDALONE''
   \<and> iteration_of ALL_SUBCOMMANDS example_order
   \<and> \<not> (getenv_flag example_plugin_env ''ANACONDA_CLI_FORCE_NEW''
          \<and> ''download'' \<in> SUBCOMMANDS_WITH_NEW_CLI)
   \<and> invoke (main_app (load_legacy_subcommands example_plugin_env example_order no_apps))
        ''notebook'' [''anaconda'', ''notebook'', ''upload'', ''nb.ipynb'']
       = Some ([Log WARNING (deprecation_message ''notebook''),
                Log INFO ''notebook'', Log INFO ''upload'', Log INFO ''nb.ipynb''], None)
   \<and> invoke (main_app (mount_subcommand example_plugin_env ''notebook'' [] True True True no_apps))
        ''notebook'' [''anaconda'', ''notebook'', ''upload'', ''nb.ipynb'']
       = Some ([Log WARNING (deprecation_message ''notebook''),
                Log INFO ''notebook'', Log INFO ''upload'', Log INFO ''nb.ipynb''], None)
   \<and> invoke (app (mount_subcommand example_plugin_env ''download'' [] False True True no_apps))
        ''download'' [''anaconda'', ''notebook'', ''upload'', ''nb.ipynb'']
       = Some ([Log INFO ''notebook'', Log INFO ''upload'', Log INFO ''nb.ipynb''], None)\<close>
proof -
  have 1: "''notebook'' \<in> DEPRECATED_SUBCOMMANDS" by (simp add: DEPRECATED_SUBCOMMANDS_def)
  have 2: "\<not> getenv_flag example_plugin_env ''ANACONDA_CLIENT_FORCE_STANDALONE''"
    by (simp add: getenv_flag_def example_plugin_env_def)
  have 3: "subcommand example_plugin_env [''anaconda'', ''notebook'', ''upload'', ''nb.ipynb'']
            = ([Log INFO ''notebook'', Log INFO ''upload'', Log INFO ''nb.ipynb''], None)"
    by (simp add: subcommand_def example_plugin_env_def example_dispatcher_def)
  have 4: "iteration_of ALL_SUBCOMMANDS example_order"
    by (auto simp: iteration_of_def ALL_SUBCOMMANDS_def example_order_def)
  have 5: "\<not> (getenv_flag example_plugin_env ''ANACONDA_CLI_FORCE_NEW''
          \<and> ''download'' \<in> SUBCOMMANDS_WITH_NEW_CLI)"
    by (simp add: getenv_flag_def example_plugin_env_def)
  from deprecated_handler_warns_then_delegates [OF 1, where p = example_plugin_env
      and help_text = "[]" and mount_to_main = True and hidden = True and st = no_apps
      and sys_argv = "[''anaconda'', ''notebook'', ''upload'', ''nb.ipynb'']"
      and other = "''download''" and names = example_order] 1 2 3 4 5
  show ?thesis by simp
qed

end
